theory Spec2Isabelle
  imports Main "HOL-Library.Multiset"
begin

section \<open>Data model of workshop/collection.py\<close>

text \<open>
  A MongoDB \<open>ObjectId\<close> is an opaque identifier; the model uses a natural number.
  User and guild identifiers are Python ints. A \<open>datetime\<close> is a point on an integer
  time line; the clock readings \<open>datetime.now()\<close> and \<open>datetime.utcnow()\<close> are
  arguments of the functions that take them.
\<close>

type_synonym oid = nat
type_synonym timestamp = int

datatype PublicationState = PRIVATE | UNLISTED | PUBLISHED

text \<open>
  The exceptions raised in the module. \<open>AttributeError\<close> is the "not loaded" error of the
  lazy accessors; it carries the message of the \<open>raise\<close>.
\<close>

datatype error =
    NotAllowed string
  | CollectableNotFound
  | CollectionNotFound
  | AttributeError string

record CodeVersion =
  cv_version :: int
  cv_content :: string
  cv_created_at :: timestamp
  cv_is_current :: bool

record RequiredEntitlement =
  entity_type :: string
  entity_id :: int
  required :: bool

text \<open>
  A reference to an in-memory \<open>WorkshopCollection\<close>, as held in the \<open>_collection\<close> field
  of an alias or snippet. No function of the module reads through such a reference
  (it is only stored, tested against \<open>None\<close>, returned and passed on), so the reference
  is represented by the \<open>id\<close> of the collection it points to.
\<close>

datatype collection_ref = CollectionRef "oid option"

text \<open>\<open>WorkshopCollectableObject\<close>: the fields set by its \<open>__init__\<close>.\<close>

record WorkshopCollectableObject =
  o_id :: oid
  o_name :: string
  o_code :: string
  o_versions :: "CodeVersion list"
  o_docs :: string
  o_entitlements :: "RequiredEntitlement list"
  o_collection :: "collection_ref option"
  o_collection_id :: oid

text \<open>
  \<open>WorkshopAlias\<close> extends the base class with the lazily loaded parent and
  subcommands. \<open>None\<close> in \<open>_parent\<close> and \<open>_subcommands\<close> is Python's \<open>None\<close>.
  \<open>WorkshopSnippet\<close> adds no field.
\<close>

datatype WorkshopAlias = WorkshopAlias
  (a_base: WorkshopCollectableObject)
  (a_subcommands: "WorkshopAlias list option")
  (a_parent: "WorkshopAlias option")
  (a_subcommand_ids: "oid list")
  (a_parent_id: "oid option")

type_synonym WorkshopSnippet = WorkshopCollectableObject

text \<open>
  \<open>WorkshopCollection\<close>: the fields set by its \<open>__init__\<close>. \<open>c_id\<close> is \<open>self.id\<close>
  (set by the mixins' constructor), \<open>None\<close> until the collection is inserted.
\<close>

record WorkshopCollection =
  c_id :: "oid option"
  c_name :: string
  c_description :: string
  c_image :: "string option"
  c_owner :: int
  c_aliases :: "WorkshopAlias list option"
  c_snippets :: "WorkshopSnippet list option"
  c_publish_state :: PublicationState
  c_approx_num_subscribers :: int
  c_approx_num_guild_subscribers :: int
  c_last_edited :: timestamp
  c_created_at :: timestamp
  c_tags :: "string list"
  c_alias_ids :: "oid list"
  c_snippet_ids :: "oid list"

subsection \<open>Documents of the store\<close>

text \<open>
  Documents are taken to conform to the schema that the module itself writes and reads:
  every field read by \<open>from_id\<close> and \<open>from_dict\<close> is present and of its documented type,
  and \<open>publish_state\<close> holds the value string of one of the three enumeration members,
  which the model identifies with the member. \<open>collection_dict\<close> is what \<open>to_dict()\<close>
  returns (without \<open>_id\<close>); a stored document adds the \<open>_id\<close> that \<open>insert_one\<close> assigns.
\<close>

record collection_dict =
  d_name :: string
  d_description :: string
  d_image :: "string option"
  d_owner :: int
  d_alias_ids :: "oid list"
  d_snippet_ids :: "oid list"
  d_publish_state :: PublicationState
  d_num_subscribers :: int
  d_num_guild_subscribers :: int
  d_last_edited :: timestamp
  d_created_at :: timestamp
  d_tags :: "string list"

record collection_doc = collection_dict +
  d_id :: oid

text \<open>
  A stored entitlement may omit \<open>required\<close>; \<open>RequiredEntitlement.__init__\<close> then takes
  its default \<open>False\<close>.
\<close>

record entitlement_doc =
  ed_entity_type :: string
  ed_entity_id :: int
  ed_required :: "bool option"

record collectable_doc =
  r_id :: oid
  r_name :: string
  r_code :: string
  r_versions :: "CodeVersion list"
  r_docs :: string
  r_entitlements :: "entitlement_doc list"
  r_collection_id :: oid

record alias_doc = collectable_doc +
  r_subcommand_ids :: "oid list"
  r_parent_id :: "oid option"

record binding =
  b_name :: string
  b_id :: oid

record subscription_doc =
  s_id :: oid
  s_type :: string
  s_subscriber_id :: int
  s_object_id :: "oid option"
  s_alias_bindings :: "binding list"
  s_snippet_bindings :: "binding list"

text \<open>An analytics event; the \<open>_id\<close> the store assigns to it is never read and is left out.\<close>

record event_doc =
  ev_type :: string
  ev_object_id :: "oid option"
  ev_timestamp :: timestamp

text \<open>
  \<open>current_app.mdb\<close>: the five collections of the store the module touches. A collection
  is the list of its documents in insertion order; \<open>find_one\<close> returns the first match.
\<close>

record mdb =
  workshop_collections :: "collection_doc list"
  workshop_aliases :: "alias_doc list"
  workshop_snippets :: "collectable_doc list"
  workshop_subscriptions :: "subscription_doc list"
  analytics_alias_events :: "event_doc list"

section \<open>Store operations\<close>

text \<open>\<open>find_one({"_id": _id})\<close> on each of the three object collections.\<close>

definition find_one_collection :: "mdb \<Rightarrow> oid \<Rightarrow> collection_doc option" where
  "find_one_collection db i = find (\<lambda>d. d_id d = i) (workshop_collections db)"

definition find_one_alias :: "mdb \<Rightarrow> oid \<Rightarrow> alias_doc option" where
  "find_one_alias db i = find (\<lambda>d. r_id d = i) (workshop_aliases db)"

definition find_one_snippet :: "mdb \<Rightarrow> oid \<Rightarrow> collectable_doc option" where
  "find_one_snippet db i = find (\<lambda>d. r_id d = i) (workshop_snippets db)"

text \<open>\<open>update_one\<close>: the first document that matches the filter is updated, if there is one.\<close>

fun update_one :: "('a \<Rightarrow> bool) \<Rightarrow> ('a \<Rightarrow> 'a) \<Rightarrow> 'a list \<Rightarrow> 'a list" where
  "update_one P f [] = []"
| "update_one P f (x # xs) = (if P x then f x # xs else x # update_one P f xs)"

section \<open>WorkshopCollection: construction and ownership\<close>

definition is_owner :: "WorkshopCollection \<Rightarrow> int \<Rightarrow> bool" where
  "is_owner self user_id = (user_id = c_owner self)"

text \<open>\<open>to_dict()\<close> with its default \<open>js=False\<close>, which is how \<open>create_new\<close> calls it.\<close>

definition to_dict :: "WorkshopCollection \<Rightarrow> collection_dict" where
  "to_dict self =
     \<lparr> d_name = c_name self, d_description = c_description self, d_image = c_image self,
       d_owner = c_owner self, d_alias_ids = c_alias_ids self,
       d_snippet_ids = c_snippet_ids self, d_publish_state = c_publish_state self,
       d_num_subscribers = c_approx_num_subscribers self,
       d_num_guild_subscribers = c_approx_num_guild_subscribers self,
       d_last_edited = c_last_edited self, d_created_at = c_created_at self,
       d_tags = c_tags self \<rparr>"

text \<open>The constructor \<open>WorkshopCollection.__init__\<close>: the lazy lists start as \<open>None\<close>.\<close>

definition WorkshopCollection_init ::
  "oid option \<Rightarrow> string \<Rightarrow> string \<Rightarrow> string option \<Rightarrow> int \<Rightarrow> oid list \<Rightarrow> oid list \<Rightarrow>
   PublicationState \<Rightarrow> int \<Rightarrow> int \<Rightarrow> timestamp \<Rightarrow> timestamp \<Rightarrow> string list \<Rightarrow>
   WorkshopCollection" where
  "WorkshopCollection_init i name description img owner alias_ids snippet_ids
     publish_state num_subscribers num_guild_subscribers last_edited created_at tags =
     \<lparr> c_id = i, c_name = name, c_description = description, c_image = img,
       c_owner = owner, c_aliases = None, c_snippets = None,
       c_publish_state = publish_state, c_approx_num_subscribers = num_subscribers,
       c_approx_num_guild_subscribers = num_guild_subscribers,
       c_last_edited = last_edited, c_created_at = created_at, c_tags = tags,
       c_alias_ids = alias_ids, c_snippet_ids = snippet_ids \<rparr>"

text \<open>
  \<open>insert_one\<close> on \<open>workshop_collections\<close>: the document is stored under the identifier
  the driver generates, here the argument \<open>inserted_id\<close>.
\<close>

definition insert_one_collection :: "oid \<Rightarrow> collection_dict \<Rightarrow> mdb \<Rightarrow> mdb" where
  "insert_one_collection inserted_id d db =
     db\<lparr>workshop_collections := workshop_collections db @
          [\<lparr> d_name = d_name d, d_description = d_description d, d_image = d_image d,
             d_owner = d_owner d, d_alias_ids = d_alias_ids d,
             d_snippet_ids = d_snippet_ids d, d_publish_state = d_publish_state d,
             d_num_subscribers = d_num_subscribers d,
             d_num_guild_subscribers = d_num_guild_subscribers d,
             d_last_edited = d_last_edited d, d_created_at = d_created_at d,
             d_tags = d_tags d, d_id = inserted_id \<rparr>]\<rparr>"

text \<open>
  \<open>create_new\<close>: \<open>now\<close> is the reading of \<open>datetime.datetime.now()\<close>, \<open>inserted_id\<close> the
  identifier the insertion returns. The result is the new instance and the new store.
\<close>

definition create_new ::
  "timestamp \<Rightarrow> oid \<Rightarrow> mdb \<Rightarrow> int \<Rightarrow> string \<Rightarrow> string \<Rightarrow> string option \<Rightarrow>
   WorkshopCollection \<times> mdb" where
  "create_new now inserted_id db user_id name description img =
     (let inst = WorkshopCollection_init None name description img user_id [] []
                   PRIVATE 0 0 now now [];
          db' = insert_one_collection inserted_id (to_dict inst) db
      in (inst\<lparr>c_id := Some inserted_id\<rparr>, db'))"

section \<open>Entitlements\<close>

text \<open>
  \<open>get_entitlements\<close> builds a \<open>collections.defaultdict\<close> with the factory
  \<open>lambda: []\<close> and returns that object. A \<open>defaultdict\<close> is its stored items together
  with what its factory returns. Subscripting it (\<open>d[k]\<close>) with a key that is not stored
  calls the factory, stores the result under the key and returns it; no \<open>KeyError\<close> is
  raised. Membership (\<open>k in d\<close>), \<open>keys()\<close> and \<open>get\<close> read the stored items and store
  nothing.
\<close>

record ('k, 'v) defaultdict =
  dd_default_factory :: 'v
  dd_items :: "'k \<rightharpoonup> 'v"

definition defaultdict_getitem ::
  "('k, 'v) defaultdict \<Rightarrow> 'k \<Rightarrow> 'v \<times> ('k, 'v) defaultdict" where
  "defaultdict_getitem d k =
     (case dd_items d k of
        Some v \<Rightarrow> (v, d)
      | None \<Rightarrow> (dd_default_factory d, d\<lparr>dd_items := (dd_items d)(k \<mapsto> dd_default_factory d)\<rparr>))"

definition defaultdict_contains :: "('k, 'v) defaultdict \<Rightarrow> 'k \<Rightarrow> bool" where
  "defaultdict_contains d k = (dd_items d k \<noteq> None)"

definition defaultdict_get :: "('k, 'v) defaultdict \<Rightarrow> 'k \<Rightarrow> 'v option" where
  "defaultdict_get d k = dd_items d k"

text \<open>
  The loop body \<open>out[ent.entity_type].append(ent.entity_id)\<close> subscripts \<open>out\<close>, which
  stores the factory's empty list under a type met for the first time, and appends to the
  list found there.
\<close>

fun get_entitlements_loop ::
  "RequiredEntitlement list \<Rightarrow> (string, int list) defaultdict \<Rightarrow>
   (string, int list) defaultdict" where
  "get_entitlements_loop [] out = out"
| "get_entitlements_loop (ent # ents) out =
     (case defaultdict_getitem out (entity_type ent) of
        (l, out1) \<Rightarrow>
          get_entitlements_loop ents
            (out1\<lparr>dd_items := (dd_items out1)(entity_type ent \<mapsto> l @ [entity_id ent])\<rparr>))"

definition get_entitlements ::
  "'a WorkshopCollectableObject_scheme \<Rightarrow> (string, int list) defaultdict" where
  "get_entitlements self =
     get_entitlements_loop (o_entitlements self)
       \<lparr>dd_default_factory = [], dd_items = Map.empty\<rparr>"

section \<open>Loading objects from the store\<close>

text \<open>
  Each \<open>from_id\<close> starts by coercing an argument that is not an \<open>ObjectId\<close>:
  \<open>_id = ObjectId(_id)\<close>. Identifiers read from stored documents and membership lists
  are \<open>ObjectId\<close>s, the coercion leaves them as they are, and \<open>from_id\<close> is modelled on an
  \<open>ObjectId\<close>. The one caller that passes a possibly missing identifier, \<open>load_parent\<close>,
  applies the coercion first: \<open>ObjectId(None)\<close> generates a new identifier, here the
  argument \<open>generated\<close>.
\<close>

fun to_ObjectId :: "oid \<Rightarrow> oid option \<Rightarrow> oid" where
  "to_ObjectId generated (Some i) = i"
| "to_ObjectId generated None = generated"

definition CodeVersion_from_dict :: "CodeVersion \<Rightarrow> CodeVersion" where
  "CodeVersion_from_dict raw =
     \<lparr> cv_version = cv_version raw, cv_content = cv_content raw,
       cv_created_at = cv_created_at raw, cv_is_current = cv_is_current raw \<rparr>"

definition RequiredEntitlement_from_dict :: "entitlement_doc \<Rightarrow> RequiredEntitlement" where
  "RequiredEntitlement_from_dict raw =
     \<lparr> entity_type = ed_entity_type raw, entity_id = ed_entity_id raw,
       required = (case ed_required raw of None \<Rightarrow> False | Some r \<Rightarrow> r) \<rparr>"

definition WorkshopCollectableObject_init ::
  "oid \<Rightarrow> string \<Rightarrow> string \<Rightarrow> CodeVersion list \<Rightarrow> string \<Rightarrow> RequiredEntitlement list \<Rightarrow>
   oid \<Rightarrow> collection_ref option \<Rightarrow> WorkshopCollectableObject" where
  "WorkshopCollectableObject_init i name code versions docs entitlements collection_id
     collection =
     \<lparr> o_id = i, o_name = name, o_code = code, o_versions = versions, o_docs = docs,
       o_entitlements = entitlements, o_collection = collection,
       o_collection_id = collection_id \<rparr>"

definition WorkshopAlias_init ::
  "oid \<Rightarrow> string \<Rightarrow> string \<Rightarrow> CodeVersion list \<Rightarrow> string \<Rightarrow> RequiredEntitlement list \<Rightarrow>
   oid \<Rightarrow> oid list \<Rightarrow> oid option \<Rightarrow> collection_ref option \<Rightarrow> WorkshopAlias option \<Rightarrow>
   WorkshopAlias" where
  "WorkshopAlias_init i name code versions docs entitlements collection_id subcommand_ids
     parent_id collection parent =
     WorkshopAlias
       (WorkshopCollectableObject_init i name code versions docs entitlements collection_id
          collection)
       None parent subcommand_ids parent_id"

definition WorkshopAlias_from_dict ::
  "alias_doc \<Rightarrow> collection_ref option \<Rightarrow> WorkshopAlias option \<Rightarrow> WorkshopAlias" where
  "WorkshopAlias_from_dict raw collection parent =
     (let versions = map CodeVersion_from_dict (r_versions raw);
          entitlements = map RequiredEntitlement_from_dict (r_entitlements raw)
      in WorkshopAlias_init (r_id raw) (r_name raw) (r_code raw) versions (r_docs raw)
           entitlements (r_collection_id raw) (r_subcommand_ids raw) (r_parent_id raw)
           collection parent)"

definition WorkshopAlias_from_id ::
  "mdb \<Rightarrow> oid \<Rightarrow> collection_ref option \<Rightarrow> WorkshopAlias option \<Rightarrow> error + WorkshopAlias" where
  "WorkshopAlias_from_id db i collection parent =
     (case find_one_alias db i of
        None \<Rightarrow> Inl CollectableNotFound
      | Some raw \<Rightarrow> Inr (WorkshopAlias_from_dict raw collection parent))"

definition WorkshopSnippet_from_id ::
  "mdb \<Rightarrow> oid \<Rightarrow> collection_ref option \<Rightarrow> error + WorkshopSnippet" where
  "WorkshopSnippet_from_id db i collection =
     (case find_one_snippet db i of
        None \<Rightarrow> Inl CollectableNotFound
      | Some raw \<Rightarrow>
          (let versions = map CodeVersion_from_dict (r_versions raw);
               entitlements = map RequiredEntitlement_from_dict (r_entitlements raw)
           in Inr (WorkshopCollectableObject_init (r_id raw) (r_name raw) (r_code raw)
                     versions (r_docs raw) entitlements (r_collection_id raw) collection)))"

definition WorkshopCollection_from_id :: "mdb \<Rightarrow> oid \<Rightarrow> error + WorkshopCollection" where
  "WorkshopCollection_from_id db i =
     (case find_one_collection db i of
        None \<Rightarrow> Inl CollectionNotFound
      | Some raw \<Rightarrow>
          Inr (WorkshopCollection_init (Some (d_id raw)) (d_name raw) (d_description raw)
                 (d_image raw) (d_owner raw) (d_alias_ids raw) (d_snippet_ids raw)
                 (d_publish_state raw) (d_num_subscribers raw)
                 (d_num_guild_subscribers raw) (d_last_edited raw) (d_created_at raw)
                 (d_tags raw)))"

section \<open>Lazy relationships\<close>

text \<open>The accessors: a relationship that is still \<open>None\<close> raises \<open>AttributeError\<close>.\<close>

definition aliases :: "WorkshopCollection \<Rightarrow> error + WorkshopAlias list" where
  "aliases self =
     (case c_aliases self of
        None \<Rightarrow> Inl (AttributeError ''Aliases are not loaded yet - run load_aliases() first'')
      | Some xs \<Rightarrow> Inr xs)"

definition snippets :: "WorkshopCollection \<Rightarrow> error + WorkshopSnippet list" where
  "snippets self =
     (case c_snippets self of
        None \<Rightarrow> Inl (AttributeError ''Snippets are not loaded yet - run load_snippets() first'')
      | Some xs \<Rightarrow> Inr xs)"

definition collection :: "WorkshopCollectableObject \<Rightarrow> error + collection_ref" where
  "collection self =
     (case o_collection self of
        None \<Rightarrow> Inl (AttributeError ''Collection is not loaded - run load_collection() first'')
      | Some c \<Rightarrow> Inr c)"

definition parent :: "WorkshopAlias \<Rightarrow> error + WorkshopAlias" where
  "parent self =
     (case a_parent self of
        None \<Rightarrow> Inl (AttributeError ''Parent is not loaded yet - run load_parent() first'')
      | Some p \<Rightarrow> Inr p)"

definition subcommands :: "WorkshopAlias \<Rightarrow> error + WorkshopAlias list" where
  "subcommands self =
     (case a_subcommands self of
        None \<Rightarrow>
          Inl (AttributeError
                 ''Subcommands are not loaded yet - run load_subcommands() first'')
      | Some xs \<Rightarrow> Inr xs)"

text \<open>
  \<open>load_aliases\<close> and \<open>load_snippets\<close> mutate \<open>self\<close>: the cached list is reset to \<open>[]\<close>
  and grows by one object per identifier. A \<open>from_id\<close> that raises leaves the objects
  appended so far in the cache, so the functions return the outcome (the exception or the
  list) together with the new \<open>self\<close>. The loop returns the exception, if any, and the
  cache as it stands.
\<close>

fun load_aliases_loop ::
  "mdb \<Rightarrow> collection_ref \<Rightarrow> oid list \<Rightarrow> WorkshopAlias list \<Rightarrow>
   error option \<times> WorkshopAlias list" where
  "load_aliases_loop db self_ref [] cache = (None, cache)"
| "load_aliases_loop db self_ref (alias_id # ids) cache =
     (case WorkshopAlias_from_id db alias_id (Some self_ref) None of
        Inl e \<Rightarrow> (Some e, cache)
      | Inr a \<Rightarrow> load_aliases_loop db self_ref ids (cache @ [a]))"

definition load_aliases ::
  "mdb \<Rightarrow> WorkshopCollection \<Rightarrow> (error + WorkshopAlias list) \<times> WorkshopCollection" where
  "load_aliases db self =
     (case load_aliases_loop db (CollectionRef (c_id self)) (c_alias_ids self) [] of
        (Some e, cache) \<Rightarrow> (Inl e, self\<lparr>c_aliases := Some cache\<rparr>)
      | (None, cache) \<Rightarrow> (Inr cache, self\<lparr>c_aliases := Some cache\<rparr>))"

fun load_snippets_loop ::
  "mdb \<Rightarrow> collection_ref \<Rightarrow> oid list \<Rightarrow> WorkshopSnippet list \<Rightarrow>
   error option \<times> WorkshopSnippet list" where
  "load_snippets_loop db self_ref [] cache = (None, cache)"
| "load_snippets_loop db self_ref (snippet_id # ids) cache =
     (case WorkshopSnippet_from_id db snippet_id (Some self_ref) of
        Inl e \<Rightarrow> (Some e, cache)
      | Inr a \<Rightarrow> load_snippets_loop db self_ref ids (cache @ [a]))"

definition load_snippets ::
  "mdb \<Rightarrow> WorkshopCollection \<Rightarrow> (error + WorkshopSnippet list) \<times> WorkshopCollection" where
  "load_snippets db self =
     (case load_snippets_loop db (CollectionRef (c_id self)) (c_snippet_ids self) [] of
        (Some e, cache) \<Rightarrow> (Inl e, self\<lparr>c_snippets := Some cache\<rparr>)
      | (None, cache) \<Rightarrow> (Inr cache, self\<lparr>c_snippets := Some cache\<rparr>))"

text \<open>
  \<open>load_parent\<close>: the assignment to \<open>self._parent\<close> happens only when \<open>from_id\<close> returns.
\<close>

definition load_parent ::
  "oid \<Rightarrow> mdb \<Rightarrow> WorkshopAlias \<Rightarrow> (error + WorkshopAlias) \<times> WorkshopAlias" where
  "load_parent generated db self =
     (case WorkshopAlias_from_id db (to_ObjectId generated (a_parent_id self))
             (o_collection (a_base self)) None of
        Inl e \<Rightarrow> (Inl e, self)
      | Inr p \<Rightarrow>
          (Inr p, WorkshopAlias (a_base self) (a_subcommands self) (Some p)
                    (a_subcommand_ids self) (a_parent_id self)))"

section \<open>Subscribed collections\<close>

text \<open>
  \<open>user_subscribed\<close> and \<open>server_subscribed\<close> are generators; the model returns the list
  of what they yield. The identifiers come from \<open>my_sub_ids\<close> and \<open>guild_active_ids\<close> of the
  mixins in workshop.utils, which are not part of this module: they are arguments.
  Only \<open>CollectionNotFound\<close> is caught; any other exception ends the generator.
\<close>

fun subscribed_loop :: "mdb \<Rightarrow> oid list \<Rightarrow> error + WorkshopCollection list" where
  "subscribed_loop db [] = Inr []"
| "subscribed_loop db (coll_id # ids) =
     (case WorkshopCollection_from_id db coll_id of
        Inl CollectionNotFound \<Rightarrow> subscribed_loop db ids
      | Inl e \<Rightarrow> Inl e
      | Inr c \<Rightarrow>
          (case subscribed_loop db ids of Inl e \<Rightarrow> Inl e | Inr cs \<Rightarrow> Inr (c # cs)))"

definition user_subscribed ::
  "(mdb \<Rightarrow> int \<Rightarrow> oid list) \<Rightarrow> mdb \<Rightarrow> int \<Rightarrow> error + WorkshopCollection list" where
  "user_subscribed my_sub_ids db user_id = subscribed_loop db (my_sub_ids db user_id)"

definition server_subscribed ::
  "(mdb \<Rightarrow> int \<Rightarrow> oid list) \<Rightarrow> mdb \<Rightarrow> int \<Rightarrow> error + WorkshopCollection list" where
  "server_subscribed guild_active_ids db guild_id =
     subscribed_loop db (guild_active_ids db guild_id)"

section \<open>Bindings\<close>

text \<open>
  The default bindings read \<open>self._aliases\<close> after loading it if it is still \<open>None\<close>;
  \<open>load_aliases\<close> returns the very list it has stored there.
\<close>

definition generate_default_alias_bindings ::
  "mdb \<Rightarrow> WorkshopCollection \<Rightarrow> (error + binding list) \<times> WorkshopCollection" where
  "generate_default_alias_bindings db self =
     (case c_aliases self of
        None \<Rightarrow>
          (case load_aliases db self of
             (Inl e, self') \<Rightarrow> (Inl e, self')
           | (Inr loaded, self') \<Rightarrow>
               (Inr (map (\<lambda>alias. \<lparr>b_name = o_name (a_base alias), b_id = o_id (a_base alias)\<rparr>)
                       loaded), self'))
      | Some cached \<Rightarrow>
          (Inr (map (\<lambda>alias. \<lparr>b_name = o_name (a_base alias), b_id = o_id (a_base alias)\<rparr>)
                  cached), self))"

definition generate_default_snippet_bindings ::
  "mdb \<Rightarrow> WorkshopCollection \<Rightarrow> (error + binding list) \<times> WorkshopCollection" where
  "generate_default_snippet_bindings db self =
     (case c_snippets self of
        None \<Rightarrow>
          (case load_snippets db self of
             (Inl e, self') \<Rightarrow> (Inl e, self')
           | (Inr loaded, self') \<Rightarrow>
               (Inr (map (\<lambda>snippet. \<lparr>b_name = o_name snippet, b_id = o_id snippet\<rparr>) loaded),
                self'))
      | Some cached \<Rightarrow>
          (Inr (map (\<lambda>snippet. \<lparr>b_name = o_name snippet, b_id = o_id snippet\<rparr>) cached),
           self))"

text \<open>
  \<open>binding_cls\<close> is one of the two classes; \<open>binding_cls.from_id(missing, collection=self)\<close>
  yields an object of which only the base-class fields \<open>name\<close> and \<open>id\<close> are read.
\<close>

datatype binding_cls = WorkshopAlias_cls | WorkshopSnippet_cls

fun binding_cls_from_id ::
  "binding_cls \<Rightarrow> mdb \<Rightarrow> oid \<Rightarrow> collection_ref option \<Rightarrow> error + WorkshopCollectableObject" where
  "binding_cls_from_id WorkshopAlias_cls db i coll =
     (case WorkshopAlias_from_id db i coll None of Inl e \<Rightarrow> Inl e | Inr a \<Rightarrow> Inr (a_base a))"
| "binding_cls_from_id WorkshopSnippet_cls db i coll = WorkshopSnippet_from_id db i coll"

text \<open>
  \<open>missing_ids = set(the_ids).difference(binding_ids)\<close>: the identifiers of \<open>the_ids\<close>
  without a binding, each once. Python leaves the order in which a set is iterated
  open; the model lists the set in order of first occurrence and lets the argument
  \<open>set_order\<close> of \<open>bindings_sanity_check\<close> rearrange that list into the order of the
  iteration. The appends go to the caller's list in place; what the function returns is
  the filtered copy, and that is what the model returns.
\<close>

definition missing_ids :: "oid list \<Rightarrow> binding list \<Rightarrow> oid list" where
  "missing_ids the_ids the_bindings =
     remdups (filter (\<lambda>i. i \<notin> b_id ` set the_bindings) the_ids)"

fun append_missing ::
  "binding_cls \<Rightarrow> mdb \<Rightarrow> collection_ref \<Rightarrow> oid list \<Rightarrow> binding list \<Rightarrow> error + binding list" where
  "append_missing cls db self_ref [] the_bindings = Inr the_bindings"
| "append_missing cls db self_ref (missing # rest) the_bindings =
     (case binding_cls_from_id cls db missing (Some self_ref) of
        Inl e \<Rightarrow> Inl e
      | Inr obj \<Rightarrow>
          append_missing cls db self_ref rest
            (the_bindings @ [\<lparr>b_name = o_name obj, b_id = o_id obj\<rparr>]))"

definition bindings_sanity_check ::
  "(oid list \<Rightarrow> oid list) \<Rightarrow> mdb \<Rightarrow> WorkshopCollection \<Rightarrow> oid list \<Rightarrow> binding list \<Rightarrow>
   binding_cls \<Rightarrow> error + binding list" where
  "bindings_sanity_check set_order db self the_ids the_bindings cls =
     (case append_missing cls db (CollectionRef (c_id self))
             (set_order (missing_ids the_ids the_bindings)) the_bindings of
        Inl e \<Rightarrow> Inl e
      | Inr appended \<Rightarrow> Inr (filter (\<lambda>b. b_id b \<in> set the_ids) appended))"

text \<open>
  \<open>update_alias_bindings\<close> and \<open>update_snippet_bindings\<close> store the reconciled list in the
  subscription document with the given \<open>_id\<close>.
\<close>

definition update_alias_bindings ::
  "(oid list \<Rightarrow> oid list) \<Rightarrow> mdb \<Rightarrow> WorkshopCollection \<Rightarrow> subscription_doc \<Rightarrow>
   (error + unit) \<times> mdb" where
  "update_alias_bindings set_order db self subscription_doc =
     (case bindings_sanity_check set_order db self (c_alias_ids self)
             (s_alias_bindings subscription_doc) WorkshopAlias_cls of
        Inl e \<Rightarrow> (Inl e, db)
      | Inr the_bindings \<Rightarrow>
          (Inr (),
           db\<lparr>workshop_subscriptions :=
                update_one (\<lambda>s. s_id s = s_id subscription_doc)
                  (\<lambda>s. s\<lparr>s_alias_bindings := the_bindings\<rparr>) (workshop_subscriptions db)\<rparr>))"

definition update_snippet_bindings ::
  "(oid list \<Rightarrow> oid list) \<Rightarrow> mdb \<Rightarrow> WorkshopCollection \<Rightarrow> subscription_doc \<Rightarrow>
   (error + unit) \<times> mdb" where
  "update_snippet_bindings set_order db self subscription_doc =
     (case bindings_sanity_check set_order db self (c_snippet_ids self)
             (s_snippet_bindings subscription_doc) WorkshopSnippet_cls of
        Inl e \<Rightarrow> (Inl e, db)
      | Inr the_bindings \<Rightarrow>
          (Inr (),
           db\<lparr>workshop_subscriptions :=
                update_one (\<lambda>s. s_id s = s_id subscription_doc)
                  (\<lambda>s. s\<lparr>s_snippet_bindings := the_bindings\<rparr>) (workshop_subscriptions db)\<rparr>))"

section \<open>Subscription and guild activation\<close>

text \<open>The three writes shared by the four operations.\<close>

definition insert_one_subscription :: "subscription_doc \<Rightarrow> mdb \<Rightarrow> mdb" where
  "insert_one_subscription doc db =
     db\<lparr>workshop_subscriptions := workshop_subscriptions db @ [doc]\<rparr>"

definition inc_num_subscribers :: "oid option \<Rightarrow> int \<Rightarrow> mdb \<Rightarrow> mdb" where
  "inc_num_subscribers self_id k db =
     db\<lparr>workshop_collections :=
          update_one (\<lambda>d. Some (d_id d) = self_id)
            (\<lambda>d. d\<lparr>d_num_subscribers := d_num_subscribers d + k\<rparr>) (workshop_collections db)\<rparr>"

definition inc_num_guild_subscribers :: "oid option \<Rightarrow> int \<Rightarrow> mdb \<Rightarrow> mdb" where
  "inc_num_guild_subscribers self_id k db =
     db\<lparr>workshop_collections :=
          update_one (\<lambda>d. Some (d_id d) = self_id)
            (\<lambda>d. d\<lparr>d_num_guild_subscribers := d_num_guild_subscribers d + k\<rparr>)
            (workshop_collections db)\<rparr>"

definition insert_one_event :: "string \<Rightarrow> oid option \<Rightarrow> timestamp \<Rightarrow> mdb \<Rightarrow> mdb" where
  "insert_one_event ty object_id ts db =
     db\<lparr>analytics_alias_events := analytics_alias_events db @
          [\<lparr>ev_type = ty, ev_object_id = object_id, ev_timestamp = ts\<rparr>]\<rparr>"

text \<open>
  \<open>subscribe\<close>. The mixin method \<open>is_subscribed\<close> is an argument, as are the \<open>_id\<close> the
  store gives the new subscription document and the reading of \<open>utcnow()\<close>. Every raise
  comes before the first write, so a failed call returns the store it was given; \<open>self\<close>
  may have been changed by the loading of its aliases and snippets.
\<close>

definition subscribe ::
  "(WorkshopCollection \<Rightarrow> mdb \<Rightarrow> int \<Rightarrow> bool) \<Rightarrow> oid \<Rightarrow> timestamp \<Rightarrow> mdb \<Rightarrow>
   WorkshopCollection \<Rightarrow> int \<Rightarrow> (error + unit) \<times> WorkshopCollection \<times> mdb" where
  "subscribe is_subscribed inserted_id utcnow db self user_id =
     (if is_subscribed self db user_id
      then (Inl (NotAllowed ''You are already subscribed to this.''), self, db)
      else if c_publish_state self = PRIVATE \<and> \<not> is_owner self user_id
      then (Inl (NotAllowed ''This collection is private.''), self, db)
      else
        (case generate_default_alias_bindings db self of
           (Inl e, self1) \<Rightarrow> (Inl e, self1, db)
         | (Inr alias_bindings, self1) \<Rightarrow>
             (case generate_default_snippet_bindings db self1 of
                (Inl e, self2) \<Rightarrow> (Inl e, self2, db)
              | (Inr snippet_bindings, self2) \<Rightarrow>
                  (Inr (), self2,
                   insert_one_event ''subscribe'' (c_id self2) utcnow
                     (inc_num_subscribers (c_id self2) 1
                        (insert_one_subscription
                           \<lparr> s_id = inserted_id, s_type = ''subscribe'',
                             s_subscriber_id = user_id, s_object_id = c_id self2,
                             s_alias_bindings = alias_bindings,
                             s_snippet_bindings = snippet_bindings \<rparr> db))))))"

text \<open>
  \<open>unsubscribe\<close>. \<open>super().unsubscribe(user_id)\<close> is the mixin's removal of the join
  record: an argument that reads \<open>self\<close> and the store and either raises or returns the
  subscription documents that remain.
\<close>

definition unsubscribe ::
  "(WorkshopCollection \<Rightarrow> mdb \<Rightarrow> int \<Rightarrow> error + subscription_doc list) \<Rightarrow> timestamp \<Rightarrow> mdb \<Rightarrow>
   WorkshopCollection \<Rightarrow> int \<Rightarrow> (error + unit) \<times> mdb" where
  "unsubscribe super_unsubscribe utcnow db self user_id =
     (case super_unsubscribe self db user_id of
        Inl e \<Rightarrow> (Inl e, db)
      | Inr remaining \<Rightarrow>
          (Inr (),
           insert_one_event ''unsubscribe'' (c_id self) utcnow
             (inc_num_subscribers (c_id self) (- 1)
                (db\<lparr>workshop_subscriptions := remaining\<rparr>))))"

definition set_server_active ::
  "(WorkshopCollection \<Rightarrow> mdb \<Rightarrow> int \<Rightarrow> bool) \<Rightarrow> oid \<Rightarrow> timestamp \<Rightarrow> mdb \<Rightarrow>
   WorkshopCollection \<Rightarrow> int \<Rightarrow> (error + unit) \<times> WorkshopCollection \<times> mdb" where
  "set_server_active is_server_active inserted_id utcnow db self guild_id =
     (if is_server_active self db guild_id
      then (Inl (NotAllowed ''This collection is already installed on this server.''),
            self, db)
      else if c_publish_state self = PRIVATE
      then (Inl (NotAllowed ''This collection is private.''), self, db)
      else
        (case generate_default_alias_bindings db self of
           (Inl e, self1) \<Rightarrow> (Inl e, self1, db)
         | (Inr alias_bindings, self1) \<Rightarrow>
             (case generate_default_snippet_bindings db self1 of
                (Inl e, self2) \<Rightarrow> (Inl e, self2, db)
              | (Inr snippet_bindings, self2) \<Rightarrow>
                  (Inr (), self2,
                   insert_one_event ''server_subscribe'' (c_id self2) utcnow
                     (inc_num_guild_subscribers (c_id self2) 1
                        (insert_one_subscription
                           \<lparr> s_id = inserted_id, s_type = ''server_active'',
                             s_subscriber_id = guild_id, s_object_id = c_id self2,
                             s_alias_bindings = alias_bindings,
                             s_snippet_bindings = snippet_bindings \<rparr> db))))))"

definition unset_server_active ::
  "(WorkshopCollection \<Rightarrow> mdb \<Rightarrow> int \<Rightarrow> error + subscription_doc list) \<Rightarrow> timestamp \<Rightarrow> mdb \<Rightarrow>
   WorkshopCollection \<Rightarrow> int \<Rightarrow> (error + unit) \<times> mdb" where
  "unset_server_active super_unset_server_active utcnow db self guild_id =
     (case super_unset_server_active self db guild_id of
        Inl e \<Rightarrow> (Inl e, db)
      | Inr remaining \<Rightarrow>
          (Inr (),
           insert_one_event ''server_unsubscribe'' (c_id self) utcnow
             (inc_num_guild_subscribers (c_id self) (- 1)
                (db\<lparr>workshop_subscriptions := remaining\<rparr>))))"

text \<open>The counters as stored: the field of the collection's document, if it has one.\<close>

definition num_subscribers :: "mdb \<Rightarrow> oid option \<Rightarrow> int option" where
  "num_subscribers db self_id =
     map_option d_num_subscribers
       (find (\<lambda>d. Some (d_id d) = self_id) (workshop_collections db))"

definition num_guild_subscribers :: "mdb \<Rightarrow> oid option \<Rightarrow> int option" where
  "num_guild_subscribers db self_id =
     map_option d_num_guild_subscribers
       (find (\<lambda>d. Some (d_id d) = self_id) (workshop_collections db))"

subsection \<open>The capabilities of workshop.utils\<close>

text \<open>
  Modelled from the spec: the mixins \<open>SubscriberMixin\<close> and \<open>GuildActiveMixin\<close> of
  workshop.utils are consumed by this module and not defined in it. The spec lists
  \<open>is_subscribed(id)\<close>, a generic \<open>unsubscribe(id)\<close> "removing the join record",
  \<open>is_server_active(id)\<close>, \<open>guild_active_ids(guild_id)\<close> and a generic
  \<open>unset_server_active(id)\<close>, over subscription records of type "subscribe" or
  "server_active" that link a subscriber to a collection. The definitions below read them
  so: a subscriber is subscribed when such a record exists, the removal deletes the
  matching records and raises nothing, and the identifiers are those of the subscriber's
  records in stored order. The operations above take the capabilities as arguments; these
  definitions instantiate them.
\<close>

definition has_record :: "string \<Rightarrow> WorkshopCollection \<Rightarrow> mdb \<Rightarrow> int \<Rightarrow> bool" where
  "has_record ty self db subscriber =
     list_ex (\<lambda>s. s_type s = ty \<and> s_subscriber_id s = subscriber \<and> s_object_id s = c_id self)
       (workshop_subscriptions db)"

definition remove_records ::
  "string \<Rightarrow> WorkshopCollection \<Rightarrow> mdb \<Rightarrow> int \<Rightarrow> error + subscription_doc list" where
  "remove_records ty self db subscriber =
     Inr (filter
            (\<lambda>s. \<not> (s_type s = ty \<and> s_subscriber_id s = subscriber \<and> s_object_id s = c_id self))
            (workshop_subscriptions db))"

definition record_object_ids :: "string \<Rightarrow> mdb \<Rightarrow> int \<Rightarrow> oid list" where
  "record_object_ids ty db subscriber =
     List.map_filter
       (\<lambda>s. if s_type s = ty \<and> s_subscriber_id s = subscriber then s_object_id s else None)
       (workshop_subscriptions db)"

section \<open>Notions used to state the properties\<close>

text \<open>
  The name under which an alias or snippet is stored, if the identifier has a document.
\<close>

definition stored_name :: "binding_cls \<Rightarrow> mdb \<Rightarrow> oid \<Rightarrow> string option" where
  "stored_name cls db i =
     (case cls of
        WorkshopAlias_cls \<Rightarrow> map_option r_name (find_one_alias db i)
      | WorkshopSnippet_cls \<Rightarrow> map_option r_name (find_one_snippet db i))"

text \<open>
  The members of a collection resolve when every alias and snippet identifier that the
  default bindings would have to load has a document; a list that is already cached is
  not loaded again.
\<close>

definition members_resolve :: "mdb \<Rightarrow> WorkshopCollection \<Rightarrow> bool" where
  "members_resolve db self =
     ((c_aliases self \<noteq> None
       \<or> list_all (\<lambda>i. stored_name WorkshopAlias_cls db i \<noteq> None) (c_alias_ids self))
      \<and> (c_snippets self \<noteq> None
       \<or> list_all (\<lambda>i. stored_name WorkshopSnippet_cls db i \<noteq> None) (c_snippet_ids self)))"

text \<open>
  One \<open>{name, id}\<close> binding per identifier of a membership list, under the name the
  object is stored with; there is no such list when one of the identifiers has no
  document.
\<close>

fun stored_bindings :: "binding_cls \<Rightarrow> mdb \<Rightarrow> oid list \<Rightarrow> binding list option" where
  "stored_bindings cls db [] = Some []"
| "stored_bindings cls db (i # ids) =
     (case stored_name cls db i of
        None \<Rightarrow> None
      | Some n \<Rightarrow>
          (case stored_bindings cls db ids of
             None \<Rightarrow> None
           | Some bs \<Rightarrow> Some (\<lparr>b_name = n, b_id = i\<rparr> # bs)))"

text \<open>
  One operation after the other on the same instance, as a caller would write them: an
  exception of the first ends the sequence, and the store is as the first left it.
\<close>

definition subscribe_then_unsubscribe ::
  "(WorkshopCollection \<Rightarrow> mdb \<Rightarrow> int \<Rightarrow> bool) \<Rightarrow>
   (WorkshopCollection \<Rightarrow> mdb \<Rightarrow> int \<Rightarrow> error + subscription_doc list) \<Rightarrow>
   oid \<Rightarrow> timestamp \<Rightarrow> timestamp \<Rightarrow> mdb \<Rightarrow> WorkshopCollection \<Rightarrow> int \<Rightarrow> (error + unit) \<times> mdb" where
  "subscribe_then_unsubscribe is_subscribed super_unsubscribe inserted_id t1 t2 db self user_id =
     (case subscribe is_subscribed inserted_id t1 db self user_id of
        (Inl e, self', db') \<Rightarrow> (Inl e, db')
      | (Inr u, self', db') \<Rightarrow> unsubscribe super_unsubscribe t2 db' self' user_id)"

definition set_then_unset_server_active ::
  "(WorkshopCollection \<Rightarrow> mdb \<Rightarrow> int \<Rightarrow> bool) \<Rightarrow>
   (WorkshopCollection \<Rightarrow> mdb \<Rightarrow> int \<Rightarrow> error + subscription_doc list) \<Rightarrow>
   oid \<Rightarrow> timestamp \<Rightarrow> timestamp \<Rightarrow> mdb \<Rightarrow> WorkshopCollection \<Rightarrow> int \<Rightarrow> (error + unit) \<times> mdb" where
  "set_then_unset_server_active is_server_active super_unset_server_active inserted_id t1 t2
     db self guild_id =
     (case set_server_active is_server_active inserted_id t1 db self guild_id of
        (Inl e, self', db') \<Rightarrow> (Inl e, db')
      | (Inr u, self', db') \<Rightarrow>
          unset_server_active super_unset_server_active t2 db' self' guild_id)"

subsection \<open>A small store\<close>

text \<open>
  A store with one PRIVATE collection (identifier 11, owner 10) of one alias and one
  snippet, one UNLISTED collection (identifier 12, owner 10) with the same members, and
  the in-memory instances that \<open>from_id\<close> builds for them.
\<close>

definition example_collection_doc :: "oid \<Rightarrow> PublicationState \<Rightarrow> collection_doc" where
  "example_collection_doc i st =
     \<lparr> d_name = ''dice'', d_description = ''rolls'', d_image = None, d_owner = 10,
       d_alias_ids = [5], d_snippet_ids = [6], d_publish_state = st,
       d_num_subscribers = 0, d_num_guild_subscribers = 0, d_last_edited = 0,
       d_created_at = 0, d_tags = [], d_id = i \<rparr>"

definition example_db :: mdb where
  "example_db =
     \<lparr> workshop_collections =
         [example_collection_doc 11 PRIVATE, example_collection_doc 12 UNLISTED],
       workshop_aliases =
         [\<lparr> r_id = 5, r_name = ''roll'', r_code = ''echo'', r_versions = [], r_docs = ''help'',
            r_entitlements = [], r_collection_id = 11, r_subcommand_ids = [],
            r_parent_id = None \<rparr>],
       workshop_snippets =
         [\<lparr> r_id = 6, r_name = ''adv'', r_code = ''adv'', r_versions = [], r_docs = ''help'',
            r_entitlements = [], r_collection_id = 11 \<rparr>],
       workshop_subscriptions = [],
       analytics_alias_events = [] \<rparr>"

definition example_collection :: "oid \<Rightarrow> PublicationState \<Rightarrow> WorkshopCollection" where
  "example_collection i st =
     WorkshopCollection_init (Some i) ''dice'' ''rolls'' None 10 [5] [6] st 0 0 0 0 []"

text \<open>
  A second store, with one UNLISTED collection (identifier 13) that lists the aliases 5
  and 8, of which 8 has no document, and the instance that \<open>from_id\<close> builds for it.
\<close>

definition example_dangling_db :: mdb where
  "example_dangling_db =
     example_db\<lparr>workshop_collections :=
       [(example_collection_doc 13 UNLISTED)\<lparr>d_alias_ids := [5, 8]\<rparr>]\<rparr>"

definition example_dangling_collection :: WorkshopCollection where
  "example_dangling_collection =
     WorkshopCollection_init (Some 13) ''dice'' ''rolls'' None 10 [5, 8] [6] UNLISTED
       0 0 0 0 []"

text \<open>An object that requires two entitlements of type "spell" and one of type "feat".\<close>

definition example_object :: WorkshopCollectableObject where
  "example_object =
     WorkshopCollectableObject_init 6 ''adv'' ''adv'' [] ''help''
       [\<lparr>entity_type = ''spell'', entity_id = 3, required = False\<rparr>,
        \<lparr>entity_type = ''feat'', entity_id = 1, required = False\<rparr>,
        \<lparr>entity_type = ''spell'', entity_id = 2, required = True\<rparr>]
       11 None"

section \<open>Properties\<close>

subsection \<open>Creation and ownership\<close>

text \<open>
  Claim C5. For every owner, name, description and image, \<open>create_new\<close> returns a
  collection whose publication state is PRIVATE, whose subscriber and guild-subscriber
  counters are zero, whose alias and snippet membership lists are empty and whose
  identifier is set (to the identifier the insertion returned); on that collection
  \<open>is_owner\<close> holds for the creating user and for no other user.
\<close>

theorem create_new_defaults:
  "c_publish_state (fst (create_new now new_id db user_id name description img)) = PRIVATE
   \<and> c_approx_num_subscribers (fst (create_new now new_id db user_id name description img)) = 0
   \<and> c_approx_num_guild_subscribers
        (fst (create_new now new_id db user_id name description img)) = 0
   \<and> c_alias_ids (fst (create_new now new_id db user_id name description img)) = []
   \<and> c_snippet_ids (fst (create_new now new_id db user_id name description img)) = []
   \<and> c_id (fst (create_new now new_id db user_id name description img)) = Some new_id
   \<and> is_owner (fst (create_new now new_id db user_id name description img)) u
       = (u = user_id)"
  by (simp add: create_new_def WorkshopCollection_init_def is_owner_def Let_def)

subsection \<open>Entitlements\<close>

lemma get_entitlements_loop_factory:
  "dd_default_factory (get_entitlements_loop ents out) = dd_default_factory out"
  by (induction ents arbitrary: out) (simp_all add: defaultdict_getitem_def split: option.splits)

lemma get_entitlements_loop_items:
  assumes "dd_default_factory out = []"
  shows "dd_items (get_entitlements_loop ents out) t =
     (if filter (\<lambda>e. entity_type e = t) ents = [] then dd_items out t
      else Some ((case dd_items out t of None \<Rightarrow> [] | Some l \<Rightarrow> l)
                 @ map entity_id (filter (\<lambda>e. entity_type e = t) ents)))"
  using assms
proof (induction ents arbitrary: out)
  case Nil
  show ?case by simp
next
  case (Cons ent ents)
  show ?case
  proof (cases "dd_items out (entity_type ent)")
    case None
    let ?out = "out\<lparr>dd_items := (dd_items out)(entity_type ent \<mapsto> [entity_id ent])\<rparr>"
    have f: "dd_default_factory ?out = []" using Cons.prems by simp
    from None Cons.prems Cons.IH [OF f] show ?thesis
      by (auto simp: defaultdict_getitem_def)
  next
    case (Some l)
    let ?out = "out\<lparr>dd_items := (dd_items out)(entity_type ent \<mapsto> l @ [entity_id ent])\<rparr>"
    have f: "dd_default_factory ?out = []" using Cons.prems by simp
    from Some Cons.prems Cons.IH [OF f] show ?thesis
      by (auto simp: defaultdict_getitem_def)
  qed
qed

text \<open>
  Claim C6, as the code has it. For every entitlement list, \<open>get_entitlements\<close> returns a
  \<open>defaultdict\<close> (factory: the empty list) whose stored items map each entity type that
  occurs to the entity ids of the entitlements of that type, in the order of the
  entitlement list. An entity type that no entitlement has is not a stored key:
  membership and \<open>get\<close> do not find it, and no stored key maps to the empty list. But
  subscripting the result with such a type raises nothing: it returns the empty list and
  stores it under the type, so a caller that subscripts has no missing key to handle.
\<close>

theorem get_entitlements_groups:
  "defaultdict_get (get_entitlements self) t =
     (if filter (\<lambda>e. entity_type e = t) (o_entitlements self) = [] then None
      else Some (map entity_id (filter (\<lambda>e. entity_type e = t) (o_entitlements self))))
   \<and> defaultdict_get (get_entitlements self) t \<noteq> Some []
   \<and> dom (dd_items (get_entitlements self)) = entity_type ` set (o_entitlements self)
   \<and> defaultdict_contains (get_entitlements self) t
       = (filter (\<lambda>e. entity_type e = t) (o_entitlements self) \<noteq> [])
   \<and> dd_default_factory (get_entitlements self) = []
   \<and> defaultdict_getitem (get_entitlements self) t =
     (if filter (\<lambda>e. entity_type e = t) (o_entitlements self) = []
      then ([], (get_entitlements self)
                  \<lparr>dd_items := (dd_items (get_entitlements self))(t \<mapsto> [])\<rparr>)
      else (map entity_id (filter (\<lambda>e. entity_type e = t) (o_entitlements self)),
            get_entitlements self))"
proof -
  have ap: "dd_items (get_entitlements self) k =
     (if filter (\<lambda>e. entity_type e = k) (o_entitlements self) = [] then None
      else Some (map entity_id (filter (\<lambda>e. entity_type e = k) (o_entitlements self))))" for k
    by (simp add: get_entitlements_def get_entitlements_loop_items)
  have fac: "dd_default_factory (get_entitlements self) = []"
    by (simp add: get_entitlements_def get_entitlements_loop_factory)
  have d: "dom (dd_items (get_entitlements self)) = entity_type ` set (o_entitlements self)"
    by (auto simp: dom_def ap filter_empty_conv split: if_splits)
  have g: "defaultdict_getitem (get_entitlements self) t =
     (if filter (\<lambda>e. entity_type e = t) (o_entitlements self) = []
      then ([], (get_entitlements self)
                  \<lparr>dd_items := (dd_items (get_entitlements self))(t \<mapsto> [])\<rparr>)
      else (map entity_id (filter (\<lambda>e. entity_type e = t) (o_entitlements self)),
            get_entitlements self))"
    by (simp add: defaultdict_getitem_def ap fac)
  from ap [of t] d fac g show ?thesis
    by (simp add: defaultdict_get_def defaultdict_contains_def)
qed

text \<open>
  The claim as it was stated has an absent entity type never map to an empty list and
  leaves the missing key to the caller. The example object has no entitlement of type
  "race": the type is not a key of the result, yet subscripting the result with it
  returns the empty list and leaves the type stored with the empty list.
\<close>

theorem get_entitlements_missing_key_counterexample:
  "\<not> defaultdict_contains (get_entitlements example_object) ''race''
   \<and> fst (defaultdict_getitem (get_entitlements example_object) ''race'') = []
   \<and> defaultdict_get (snd (defaultdict_getitem (get_entitlements example_object) ''race''))
       ''race'' = Some []"
  by (simp add: get_entitlements_def example_object_def WorkshopCollectableObject_init_def
        defaultdict_getitem_def defaultdict_contains_def defaultdict_get_def)

subsection \<open>Subscribed collections\<close>

lemma WorkshopCollection_from_id_cases:
  "WorkshopCollection_from_id db i = Inl CollectionNotFound \<and> find_one_collection db i = None
   \<or> (\<exists>c. WorkshopCollection_from_id db i = Inr c \<and> c_id c = Some i
           \<and> find_one_collection db i \<noteq> None)"
  by (auto simp: WorkshopCollection_from_id_def WorkshopCollection_init_def
        find_one_collection_def find_Some_iff split: option.splits)

lemma subscribed_loop_eq:
  "subscribed_loop db ids =
     Inr (List.map_filter
            (\<lambda>i. case WorkshopCollection_from_id db i of Inl e \<Rightarrow> None | Inr c \<Rightarrow> Some c) ids)"
proof (induction ids)
  case Nil
  show ?case by (simp add: List.map_filter_simps)
next
  case (Cons i ids)
  from WorkshopCollection_from_id_cases [of db i] show ?case
    using Cons.IH by (auto simp: List.map_filter_simps)
qed

lemma subscribed_loop_ids:
  "map c_id (List.map_filter
            (\<lambda>i. case WorkshopCollection_from_id db i of Inl e \<Rightarrow> None | Inr c \<Rightarrow> Some c) ids)
   = map Some (filter (\<lambda>i. find_one_collection db i \<noteq> None) ids)"
proof (induction ids)
  case Nil
  show ?case by (simp add: List.map_filter_simps)
next
  case (Cons i ids)
  from WorkshopCollection_from_id_cases [of db i] show ?case
    using Cons.IH by (auto simp: List.map_filter_simps)
qed

text \<open>
  Claim C7. For every user (and every guild), \<open>user_subscribed\<close> (\<open>server_subscribed\<close>)
  returns, without raising, the collections that \<open>from_id\<close> builds for the subscriber's
  subscription ids, in the order of the ids and leaving out the ids for which \<open>from_id\<close>
  fails; \<open>from_id\<close> fails, with \<open>CollectionNotFound\<close>, exactly on the ids without a
  stored document, so the collections yielded are those of the ids that have one.
\<close>

theorem subscribed_skips_missing:
  "user_subscribed my_sub_ids db user_id =
     Inr (List.map_filter
            (\<lambda>i. case WorkshopCollection_from_id db i of Inl e \<Rightarrow> None | Inr c \<Rightarrow> Some c)
            (my_sub_ids db user_id))
   \<and> server_subscribed guild_active_ids db guild_id =
     Inr (List.map_filter
            (\<lambda>i. case WorkshopCollection_from_id db i of Inl e \<Rightarrow> None | Inr c \<Rightarrow> Some c)
            (guild_active_ids db guild_id))
   \<and> map c_id (List.map_filter
            (\<lambda>i. case WorkshopCollection_from_id db i of Inl e \<Rightarrow> None | Inr c \<Rightarrow> Some c) ids)
     = map Some (filter (\<lambda>i. find_one_collection db i \<noteq> None) ids)
   \<and> (WorkshopCollection_from_id db i = Inl CollectionNotFound)
       = (find_one_collection db i = None)"
proof -
  have "(WorkshopCollection_from_id db i = Inl CollectionNotFound)
       = (find_one_collection db i = None)"
    using WorkshopCollection_from_id_cases [of db i] by auto
  then show ?thesis
    by (simp add: user_subscribed_def server_subscribed_def subscribed_loop_eq
          subscribed_loop_ids)
qed

subsection \<open>Binding reconciliation\<close>

lemma find_holds: "find P xs = Some x \<Longrightarrow> P x"
  by (induction xs) (auto split: if_splits)

lemma find_one_alias_id: "find_one_alias db i = Some raw \<Longrightarrow> r_id raw = i"
  unfolding find_one_alias_def by (drule find_holds) simp

lemma find_one_snippet_id: "find_one_snippet db i = Some raw \<Longrightarrow> r_id raw = i"
  unfolding find_one_snippet_def by (drule find_holds) simp

lemma binding_cls_from_id_found:
  assumes "stored_name cls db i = Some n"
  shows "\<exists>obj. binding_cls_from_id cls db i coll = Inr obj \<and> o_name obj = n \<and> o_id obj = i"
proof (cases cls)
  case WorkshopAlias_cls
  with assms obtain raw where raw: "find_one_alias db i = Some raw" "r_name raw = n"
    by (auto simp: stored_name_def)
  then show ?thesis
    using WorkshopAlias_cls find_one_alias_id [OF raw(1)]
    by (simp add: WorkshopAlias_from_id_def WorkshopAlias_from_dict_def WorkshopAlias_init_def
          WorkshopCollectableObject_init_def Let_def)
next
  case WorkshopSnippet_cls
  with assms obtain raw where raw: "find_one_snippet db i = Some raw" "r_name raw = n"
    by (auto simp: stored_name_def)
  then show ?thesis
    using WorkshopSnippet_cls find_one_snippet_id [OF raw(1)]
    by (simp add: WorkshopSnippet_from_id_def WorkshopCollectableObject_init_def Let_def)
qed

lemma binding_cls_from_id_missing:
  assumes "stored_name cls db i = None"
  shows "binding_cls_from_id cls db i coll = Inl CollectableNotFound"
  using assms
  by (cases cls)
     (auto simp: stored_name_def WorkshopAlias_from_id_def WorkshopSnippet_from_id_def
        split: option.splits)

lemma append_missing_resolved:
  assumes "\<forall>i \<in> set ms. stored_name cls db i \<noteq> None"
  shows "append_missing cls db r ms bs =
           Inr (bs @ map (\<lambda>i. \<lparr>b_name = the (stored_name cls db i), b_id = i\<rparr>) ms)"
  using assms
proof (induction ms arbitrary: bs)
  case Nil
  show ?case by simp
next
  case (Cons m ms)
  then obtain n where n: "stored_name cls db m = Some n" by auto
  from binding_cls_from_id_found [OF n, of "Some r"] obtain obj where
    "binding_cls_from_id cls db m (Some r) = Inr obj" "o_name obj = n" "o_id obj = m"
    by blast
  with Cons n show ?case by simp
qed

lemma append_missing_unresolved:
  assumes "\<exists>i \<in> set ms. stored_name cls db i = None"
  shows "append_missing cls db r ms bs = Inl CollectableNotFound"
  using assms
proof (induction ms arbitrary: bs)
  case Nil
  then show ?case by simp
next
  case (Cons m ms)
  show ?case
  proof (cases "stored_name cls db m")
    case None
    then show ?thesis by (simp add: binding_cls_from_id_missing)
  next
    case (Some n)
    from binding_cls_from_id_found [OF Some, of "Some r"] obtain obj where
      "binding_cls_from_id cls db m (Some r) = Inr obj" by blast
    with Cons Some show ?thesis by auto
  qed
qed

lemma set_missing_ids: "set (missing_ids M B) = set M - b_id ` set B"
  by (auto simp: missing_ids_def)

lemma distinct_missing_ids: "distinct (missing_ids M B)"
  by (simp add: missing_ids_def)

text \<open>
  When a member without a binding has no document, \<open>from_id\<close> raises and the
  reconciliation returns nothing.
\<close>

lemma bindings_sanity_check_raises:
  assumes "set (set_order (missing_ids M B)) = set (missing_ids M B)"
    and "i \<in> set M" "i \<notin> b_id ` set B" "stored_name cls db i = None"
  shows "bindings_sanity_check set_order db self M B cls = Inl CollectableNotFound"
proof -
  have "\<exists>i \<in> set (set_order (missing_ids M B)). stored_name cls db i = None"
    using assms by (auto simp: set_missing_ids)
  then show ?thesis
    by (simp add: bindings_sanity_check_def append_missing_unresolved)
qed

text \<open>
  Claim C1. For every membership list \<open>M\<close> and stored binding list \<open>B\<close>, whatever the
  order in which the set of missing identifiers is iterated (\<open>set_order\<close> permutes it),
  and provided each member without a binding has a stored object to take the name from,
  the reconciliation returns the bindings of \<open>B\<close> whose id is in \<open>M\<close>, unchanged and in
  their order, followed by one binding \<open>{name, id}\<close> under the stored name for each id of
  \<open>M\<close> without a binding in \<open>B\<close>: those ids are pairwise distinct and are exactly
  \<open>M\<close> minus the ids bound in \<open>B\<close>. Every binding whose id is not in \<open>M\<close> is dropped.
\<close>

theorem bindings_sanity_check_exact:
  assumes order: "mset (set_order (missing_ids M B)) = mset (missing_ids M B)"
    and resolve: "\<forall>i \<in> set M. i \<notin> b_id ` set B \<longrightarrow> stored_name cls db i \<noteq> None"
  shows "bindings_sanity_check set_order db self M B cls =
           Inr (filter (\<lambda>b. b_id b \<in> set M) B
                @ map (\<lambda>i. \<lparr>b_name = the (stored_name cls db i), b_id = i\<rparr>)
                    (set_order (missing_ids M B)))
         \<and> distinct (set_order (missing_ids M B))
         \<and> set (set_order (missing_ids M B)) = set M - b_id ` set B"
proof -
  let ?ms = "set_order (missing_ids M B)"
  have ms: "set ?ms = set M - b_id ` set B"
    using mset_eq_setD [OF order] by (simp add: set_missing_ids)
  have dist: "distinct ?ms"
    using mset_eq_imp_distinct_iff [OF order] by (simp add: distinct_missing_ids)
  from ms resolve have "\<forall>i \<in> set ?ms. stored_name cls db i \<noteq> None" by auto
  then have ap: "append_missing cls db (CollectionRef (c_id self)) ?ms B =
      Inr (B @ map (\<lambda>i. \<lparr>b_name = the (stored_name cls db i), b_id = i\<rparr>) ?ms)"
    by (rule append_missing_resolved)
  have keep: "filter (\<lambda>b. b_id b \<in> set M)
                (map (\<lambda>i. \<lparr>b_name = the (stored_name cls db i), b_id = i\<rparr>) ?ms)
              = map (\<lambda>i. \<lparr>b_name = the (stored_name cls db i), b_id = i\<rparr>) ?ms"
    using ms by (auto simp: filter_map filter_id_conv o_def)
  show ?thesis
    using ap keep ms dist by (simp add: bindings_sanity_check_def)
qed

theorem bindings_sanity_check_exact_witness:
  "mset (rev (missing_ids [5, 7, 5] [\<lparr>b_name = ''mine'', b_id = 5\<rparr>, \<lparr>b_name = ''gone'', b_id = 9\<rparr>]))
     = mset (missing_ids [5, 7, 5] [\<lparr>b_name = ''mine'', b_id = 5\<rparr>, \<lparr>b_name = ''gone'', b_id = 9\<rparr>])
   \<and> bindings_sanity_check rev
       (example_db\<lparr>workshop_aliases := workshop_aliases example_db @
          [\<lparr> r_id = 7, r_name = ''init'', r_code = '''', r_versions = [], r_docs = '''',
             r_entitlements = [], r_collection_id = 11, r_subcommand_ids = [],
             r_parent_id = None \<rparr>]\<rparr>)
       (example_collection 11 PRIVATE) [5, 7, 5]
       [\<lparr>b_name = ''mine'', b_id = 5\<rparr>, \<lparr>b_name = ''gone'', b_id = 9\<rparr>] WorkshopAlias_cls
     = Inr [\<lparr>b_name = ''mine'', b_id = 5\<rparr>, \<lparr>b_name = ''init'', b_id = 7\<rparr>]"
  using bindings_sanity_check_exact [of rev "[5, 7, 5]"
      "[\<lparr>b_name = ''mine'', b_id = 5\<rparr>, \<lparr>b_name = ''gone'', b_id = 9\<rparr>]" WorkshopAlias_cls
      "example_db\<lparr>workshop_aliases := workshop_aliases example_db @
          [\<lparr> r_id = 7, r_name = ''init'', r_code = '''', r_versions = [], r_docs = '''',
             r_entitlements = [], r_collection_id = 11, r_subcommand_ids = [],
             r_parent_id = None \<rparr>]\<rparr>" "example_collection 11 PRIVATE"]
  by (simp add: missing_ids_def stored_name_def find_one_alias_def example_db_def)

subsection \<open>Default bindings\<close>

lemma load_aliases_loop_resolved:
  assumes "list_all (\<lambda>i. stored_name WorkshopAlias_cls db i \<noteq> None) ids"
  shows "\<exists>loaded. load_aliases_loop db r ids cache = (None, cache @ loaded)
           \<and> map (\<lambda>a. \<lparr>b_name = o_name (a_base a), b_id = o_id (a_base a)\<rparr>) loaded
             = map (\<lambda>i. \<lparr>b_name = the (stored_name WorkshopAlias_cls db i), b_id = i\<rparr>) ids"
  using assms
proof (induction ids arbitrary: cache)
  case Nil
  show ?case by simp
next
  case (Cons i ids)
  then obtain n where n: "stored_name WorkshopAlias_cls db i = Some n" by auto
  from binding_cls_from_id_found [OF n, of "Some r"] obtain a where
    a: "WorkshopAlias_from_id db i (Some r) None = Inr a"
       "o_name (a_base a) = n" "o_id (a_base a) = i"
    by (auto split: sum.splits)
  from Cons.prems have "list_all (\<lambda>i. stored_name WorkshopAlias_cls db i \<noteq> None) ids"
    by simp
  from Cons.IH [OF this, of "cache @ [a]"] obtain loaded where
    l: "load_aliases_loop db r ids (cache @ [a]) = (None, (cache @ [a]) @ loaded)"
       "map (\<lambda>a. \<lparr>b_name = o_name (a_base a), b_id = o_id (a_base a)\<rparr>) loaded
          = map (\<lambda>i. \<lparr>b_name = the (stored_name WorkshopAlias_cls db i), b_id = i\<rparr>) ids"
    by blast
  show ?case
    by (rule exI [of _ "a # loaded"]) (simp add: a l n)
qed

lemma load_snippets_loop_resolved:
  assumes "list_all (\<lambda>i. stored_name WorkshopSnippet_cls db i \<noteq> None) ids"
  shows "\<exists>loaded. load_snippets_loop db r ids cache = (None, cache @ loaded)
           \<and> map (\<lambda>s. \<lparr>b_name = o_name s, b_id = o_id s\<rparr>) loaded
             = map (\<lambda>i. \<lparr>b_name = the (stored_name WorkshopSnippet_cls db i), b_id = i\<rparr>) ids"
  using assms
proof (induction ids arbitrary: cache)
  case Nil
  show ?case by simp
next
  case (Cons i ids)
  then obtain n where n: "stored_name WorkshopSnippet_cls db i = Some n" by auto
  from binding_cls_from_id_found [OF n, of "Some r"] obtain a where
    a: "WorkshopSnippet_from_id db i (Some r) = Inr a" "o_name a = n" "o_id a = i"
    by auto
  from Cons.prems have "list_all (\<lambda>i. stored_name WorkshopSnippet_cls db i \<noteq> None) ids"
    by simp
  from Cons.IH [OF this, of "cache @ [a]"] obtain loaded where
    l: "load_snippets_loop db r ids (cache @ [a]) = (None, (cache @ [a]) @ loaded)"
       "map (\<lambda>s. \<lparr>b_name = o_name s, b_id = o_id s\<rparr>) loaded
          = map (\<lambda>i. \<lparr>b_name = the (stored_name WorkshopSnippet_cls db i), b_id = i\<rparr>) ids"
    by blast
  show ?case
    by (rule exI [of _ "a # loaded"]) (simp add: a l n)
qed

lemma load_aliases_loop_unresolved:
  assumes "\<exists>i \<in> set ids. stored_name WorkshopAlias_cls db i = None"
  shows "fst (load_aliases_loop db r ids cache) = Some CollectableNotFound"
  using assms
proof (induction ids arbitrary: cache)
  case Nil
  then show ?case by simp
next
  case (Cons i ids)
  show ?case
  proof (cases "stored_name WorkshopAlias_cls db i")
    case None
    then show ?thesis
      by (simp add: stored_name_def WorkshopAlias_from_id_def split: option.splits)
  next
    case (Some n)
    from binding_cls_from_id_found [OF Some, of "Some r"] obtain a where
      "WorkshopAlias_from_id db i (Some r) None = Inr a"
      by (auto split: sum.splits)
    with Cons Some show ?thesis by auto
  qed
qed


lemma load_snippets_loop_unresolved:
  assumes "\<exists>i \<in> set ids. stored_name WorkshopSnippet_cls db i = None"
  shows "fst (load_snippets_loop db r ids cache) = Some CollectableNotFound"
  using assms
proof (induction ids arbitrary: cache)
  case Nil
  then show ?case by simp
next
  case (Cons i ids)
  show ?case
  proof (cases "stored_name WorkshopSnippet_cls db i")
    case None
    then show ?thesis
      by (simp add: stored_name_def WorkshopSnippet_from_id_def split: option.splits)
  next
    case (Some n)
    from binding_cls_from_id_found [OF Some, of "Some r"] obtain a where
      "WorkshopSnippet_from_id db i (Some r) = Inr a"
      by auto
    with Cons Some show ?thesis by auto
  qed
qed

lemma stored_bindings_eq:
  "stored_bindings cls db ids =
     (if list_all (\<lambda>i. stored_name cls db i \<noteq> None) ids
      then Some (map (\<lambda>i. \<lparr>b_name = the (stored_name cls db i), b_id = i\<rparr>) ids)
      else None)"
  by (induction ids) (auto split: option.splits)

text \<open>
  The three outcomes of generating the default alias bindings: from the cache, from a
  load that finds every alias, from a load that meets an identifier without a document.
\<close>

lemma generate_default_alias_bindings_cached:
  assumes "c_aliases self = Some ca"
  shows "generate_default_alias_bindings db self =
           (Inr (map (\<lambda>a. \<lparr>b_name = o_name (a_base a), b_id = o_id (a_base a)\<rparr>) ca), self)"
  using assms by (simp add: generate_default_alias_bindings_def)

lemma generate_default_alias_bindings_loaded:
  assumes "c_aliases self = None"
    and "stored_bindings WorkshopAlias_cls db (c_alias_ids self) = Some ab"
  shows "\<exists>cache. generate_default_alias_bindings db self
           = (Inr ab, self\<lparr>c_aliases := Some cache\<rparr>)"
proof -
  from assms(2) have all: "list_all (\<lambda>i. stored_name WorkshopAlias_cls db i \<noteq> None)
                             (c_alias_ids self)"
    and ab: "ab = map (\<lambda>i. \<lparr>b_name = the (stored_name WorkshopAlias_cls db i), b_id = i\<rparr>)
                    (c_alias_ids self)"
    by (auto simp: stored_bindings_eq split: if_splits)
  from load_aliases_loop_resolved [OF all, of "CollectionRef (c_id self)" "[]"]
  obtain loaded where
    "load_aliases_loop db (CollectionRef (c_id self)) (c_alias_ids self) [] = (None, loaded)"
    "map (\<lambda>a. \<lparr>b_name = o_name (a_base a), b_id = o_id (a_base a)\<rparr>) loaded = ab"
    using ab by auto
  with assms(1) show ?thesis
    by (auto simp: generate_default_alias_bindings_def load_aliases_def)
qed

lemma generate_default_alias_bindings_dangling:
  assumes "c_aliases self = None"
    and "stored_bindings WorkshopAlias_cls db (c_alias_ids self) = None"
  shows "\<exists>cache. generate_default_alias_bindings db self
           = (Inl CollectableNotFound, self\<lparr>c_aliases := Some cache\<rparr>)"
proof -
  from assms(2) have "\<exists>i \<in> set (c_alias_ids self). stored_name WorkshopAlias_cls db i = None"
    by (auto simp: stored_bindings_eq list_all_iff split: if_splits)
  from load_aliases_loop_unresolved [OF this, of "CollectionRef (c_id self)" "[]"]
  obtain cache where
    "load_aliases_loop db (CollectionRef (c_id self)) (c_alias_ids self) []
       = (Some CollectableNotFound, cache)"
    by (cases "load_aliases_loop db (CollectionRef (c_id self)) (c_alias_ids self) []") simp
  with assms(1) show ?thesis
    by (auto simp: generate_default_alias_bindings_def load_aliases_def)
qed

lemma generate_default_snippet_bindings_cached:
  assumes "c_snippets self = Some cs"
  shows "generate_default_snippet_bindings db self =
           (Inr (map (\<lambda>s. \<lparr>b_name = o_name s, b_id = o_id s\<rparr>) cs), self)"
  using assms by (simp add: generate_default_snippet_bindings_def)

lemma generate_default_snippet_bindings_loaded:
  assumes "c_snippets self = None"
    and "stored_bindings WorkshopSnippet_cls db (c_snippet_ids self) = Some sb"
  shows "\<exists>cache. generate_default_snippet_bindings db self
           = (Inr sb, self\<lparr>c_snippets := Some cache\<rparr>)"
proof -
  from assms(2) have all: "list_all (\<lambda>i. stored_name WorkshopSnippet_cls db i \<noteq> None)
                             (c_snippet_ids self)"
    and sb: "sb = map (\<lambda>i. \<lparr>b_name = the (stored_name WorkshopSnippet_cls db i), b_id = i\<rparr>)
                    (c_snippet_ids self)"
    by (auto simp: stored_bindings_eq split: if_splits)
  from load_snippets_loop_resolved [OF all, of "CollectionRef (c_id self)" "[]"]
  obtain loaded where
    "load_snippets_loop db (CollectionRef (c_id self)) (c_snippet_ids self) [] = (None, loaded)"
    "map (\<lambda>s. \<lparr>b_name = o_name s, b_id = o_id s\<rparr>) loaded = sb"
    using sb by auto
  with assms(1) show ?thesis
    by (auto simp: generate_default_snippet_bindings_def load_snippets_def)
qed

lemma generate_default_snippet_bindings_dangling:
  assumes "c_snippets self = None"
    and "stored_bindings WorkshopSnippet_cls db (c_snippet_ids self) = None"
  shows "\<exists>cache. generate_default_snippet_bindings db self
           = (Inl CollectableNotFound, self\<lparr>c_snippets := Some cache\<rparr>)"
proof -
  from assms(2) have
    "\<exists>i \<in> set (c_snippet_ids self). stored_name WorkshopSnippet_cls db i = None"
    by (auto simp: stored_bindings_eq list_all_iff split: if_splits)
  from load_snippets_loop_unresolved [OF this, of "CollectionRef (c_id self)" "[]"]
  obtain cache where
    "load_snippets_loop db (CollectionRef (c_id self)) (c_snippet_ids self) []
       = (Some CollectableNotFound, cache)"
    by (cases "load_snippets_loop db (CollectionRef (c_id self)) (c_snippet_ids self) []") simp
  with assms(1) show ?thesis
    by (auto simp: generate_default_snippet_bindings_def load_snippets_def)
qed

lemma update_cache_same:
  "c_aliases self = Some ca \<Longrightarrow> self\<lparr>c_aliases := Some ca\<rparr> = self"
  "c_snippets self = Some cs \<Longrightarrow> self\<lparr>c_snippets := Some cs\<rparr> = self"
  by (cases self, simp)+

text \<open>
  Every member stored and every cached list current: both lists of bindings are the
  stored ones.
\<close>

lemma default_bindings_current:
  assumes "stored_bindings WorkshopAlias_cls db (c_alias_ids self) = Some ab"
    and "c_aliases self = None
         \<or> map_option (map (\<lambda>a. \<lparr>b_name = o_name (a_base a), b_id = o_id (a_base a)\<rparr>))
              (c_aliases self) = Some ab"
    and "stored_bindings WorkshopSnippet_cls db (c_snippet_ids self) = Some sb"
    and "c_snippets self = None
         \<or> map_option (map (\<lambda>s. \<lparr>b_name = o_name s, b_id = o_id s\<rparr>)) (c_snippets self)
              = Some sb"
  shows "\<exists>ac sc.
           generate_default_alias_bindings db self = (Inr ab, self\<lparr>c_aliases := Some ac\<rparr>)
         \<and> generate_default_snippet_bindings db (self\<lparr>c_aliases := Some ac\<rparr>)
             = (Inr sb, self\<lparr>c_aliases := Some ac, c_snippets := Some sc\<rparr>)"
proof -
  have "\<exists>ac. generate_default_alias_bindings db self = (Inr ab, self\<lparr>c_aliases := Some ac\<rparr>)"
  proof (cases "c_aliases self")
    case None
    from generate_default_alias_bindings_loaded [OF None assms(1)] show ?thesis .
  next
    case (Some ca)
    with assms(2) have "map (\<lambda>a. \<lparr>b_name = o_name (a_base a), b_id = o_id (a_base a)\<rparr>) ca = ab"
      by simp
    with generate_default_alias_bindings_cached [OF Some, of db] update_cache_same(1) [OF Some]
    show ?thesis by (intro exI [of _ ca]) simp
  qed
  then obtain ac where
    ac: "generate_default_alias_bindings db self = (Inr ab, self\<lparr>c_aliases := Some ac\<rparr>)"
    by blast
  let ?s1 = "self\<lparr>c_aliases := Some ac\<rparr>"
  have "\<exists>sc. generate_default_snippet_bindings db ?s1 = (Inr sb, ?s1\<lparr>c_snippets := Some sc\<rparr>)"
  proof (cases "c_snippets self")
    case None
    then have n: "c_snippets ?s1 = None" by simp
    have "stored_bindings WorkshopSnippet_cls db (c_snippet_ids ?s1) = Some sb"
      using assms(3) by simp
    from generate_default_snippet_bindings_loaded [OF n this] show ?thesis .
  next
    case (Some cs)
    then have s: "c_snippets ?s1 = Some cs" by simp
    from Some assms(4) have "map (\<lambda>s. \<lparr>b_name = o_name s, b_id = o_id s\<rparr>) cs = sb"
      by simp
    with generate_default_snippet_bindings_cached [OF s, of db] update_cache_same(2) [OF s]
    show ?thesis by (intro exI [of _ cs]) simp
  qed
  with ac show ?thesis by auto
qed

text \<open>A list that has to be loaded and has an identifier without a document.\<close>

lemma default_bindings_dangling:
  assumes "c_aliases self = None
             \<and> stored_bindings WorkshopAlias_cls db (c_alias_ids self) = None
           \<or> c_snippets self = None
             \<and> stored_bindings WorkshopSnippet_cls db (c_snippet_ids self) = None"
  shows "(\<exists>s1. generate_default_alias_bindings db self = (Inl CollectableNotFound, s1))
         \<or> (\<exists>ab s1 s2. generate_default_alias_bindings db self = (Inr ab, s1)
               \<and> generate_default_snippet_bindings db s1 = (Inl CollectableNotFound, s2))"
proof (cases "c_aliases self = None
             \<and> stored_bindings WorkshopAlias_cls db (c_alias_ids self) = None")
  case True
  then show ?thesis
    using generate_default_alias_bindings_dangling [of self db] by blast
next
  case False
  with assms have sn: "c_snippets self = None"
    "stored_bindings WorkshopSnippet_cls db (c_snippet_ids self) = None"
    by auto
  from False have "\<exists>ab ac. generate_default_alias_bindings db self
                      = (Inr ab, self\<lparr>c_aliases := Some ac\<rparr>)"
  proof (cases "c_aliases self")
    case None
    with False obtain ab where
      "stored_bindings WorkshopAlias_cls db (c_alias_ids self) = Some ab" by auto
    from generate_default_alias_bindings_loaded [OF None this] show ?thesis by blast
  next
    case (Some ca)
    with generate_default_alias_bindings_cached [OF Some, of db] update_cache_same(1) [OF Some]
    show ?thesis by (intro exI [of _ _] exI [of _ ca]) simp
  qed
  then obtain ab ac where
    a: "generate_default_alias_bindings db self = (Inr ab, self\<lparr>c_aliases := Some ac\<rparr>)"
    by blast
  let ?s1 = "self\<lparr>c_aliases := Some ac\<rparr>"
  have "c_snippets ?s1 = None"
    "stored_bindings WorkshopSnippet_cls db (c_snippet_ids ?s1) = None"
    using sn by simp_all
  from generate_default_snippet_bindings_dangling [OF this] a show ?thesis by blast
qed

text \<open>
  The members resolving, in the sense of \<open>members_resolve\<close>, both lists of bindings are
  generated.
\<close>

lemma default_bindings_resolved:
  assumes "members_resolve db self"
  shows "\<exists>ab sb ac sc.
           generate_default_alias_bindings db self = (Inr ab, self\<lparr>c_aliases := Some ac\<rparr>)
         \<and> generate_default_snippet_bindings db (self\<lparr>c_aliases := Some ac\<rparr>)
             = (Inr sb, self\<lparr>c_aliases := Some ac, c_snippets := Some sc\<rparr>)"
proof -
  have "\<exists>ab ac. generate_default_alias_bindings db self
                      = (Inr ab, self\<lparr>c_aliases := Some ac\<rparr>)"
  proof (cases "c_aliases self")
    case None
    with assms obtain ab where
      "stored_bindings WorkshopAlias_cls db (c_alias_ids self) = Some ab"
      by (auto simp: members_resolve_def stored_bindings_eq)
    from generate_default_alias_bindings_loaded [OF None this] show ?thesis by blast
  next
    case (Some ca)
    with generate_default_alias_bindings_cached [OF Some, of db] update_cache_same(1) [OF Some]
    show ?thesis by (intro exI [of _ _] exI [of _ ca]) simp
  qed
  then obtain ab ac where
    a: "generate_default_alias_bindings db self = (Inr ab, self\<lparr>c_aliases := Some ac\<rparr>)"
    by blast
  let ?s1 = "self\<lparr>c_aliases := Some ac\<rparr>"
  have "\<exists>sb sc. generate_default_snippet_bindings db ?s1
                   = (Inr sb, ?s1\<lparr>c_snippets := Some sc\<rparr>)"
  proof (cases "c_snippets self")
    case None
    then have n: "c_snippets ?s1 = None" by simp
    from None assms obtain sb where
      "stored_bindings WorkshopSnippet_cls db (c_snippet_ids ?s1) = Some sb"
      by (auto simp: members_resolve_def stored_bindings_eq)
    from generate_default_snippet_bindings_loaded [OF n this] show ?thesis by blast
  next
    case (Some cs)
    then have s: "c_snippets ?s1 = Some cs" by simp
    with generate_default_snippet_bindings_cached [OF s, of db] update_cache_same(2) [OF s]
    show ?thesis by (intro exI [of _ _] exI [of _ cs]) simp
  qed
  with a show ?thesis by auto
qed

lemma find_update_one:
  assumes "\<And>x. P (f x) = P x"
  shows "find P (update_one P f xs) = map_option f (find P xs)"
  by (induction xs) (simp_all add: assms)

lemma num_subscribers_inc:
  "num_subscribers (inc_num_subscribers i k db) i = map_option (\<lambda>n. n + k) (num_subscribers db i)"
  by (simp add: num_subscribers_def inc_num_subscribers_def find_update_one
        option.map_comp o_def)

lemma num_guild_subscribers_inc:
  "num_guild_subscribers (inc_num_guild_subscribers i k db) i
     = map_option (\<lambda>n. n + k) (num_guild_subscribers db i)"
  by (simp add: num_guild_subscribers_def inc_num_guild_subscribers_def find_update_one
        option.map_comp o_def)

lemma num_subscribers_other_writes:
  "num_subscribers (insert_one_event ty oi ts db) i = num_subscribers db i"
  "num_subscribers (insert_one_subscription doc db) i = num_subscribers db i"
  "num_subscribers (db\<lparr>workshop_subscriptions := subs\<rparr>) i = num_subscribers db i"
  "num_guild_subscribers (insert_one_event ty oi ts db) i = num_guild_subscribers db i"
  "num_guild_subscribers (insert_one_subscription doc db) i = num_guild_subscribers db i"
  "num_guild_subscribers (db\<lparr>workshop_subscriptions := subs\<rparr>) i = num_guild_subscribers db i"
  by (simp_all add: num_subscribers_def num_guild_subscribers_def insert_one_event_def
        insert_one_subscription_def)

subsection \<open>Subscription\<close>

lemma subscribe_success:
  assumes "\<not> is_subscribed self db user_id"
    and "c_publish_state self \<noteq> PRIVATE \<or> is_owner self user_id"
    and "members_resolve db self"
  shows "\<exists>self' db'. subscribe is_subscribed new_id utcnow db self user_id = (Inr (), self', db')
           \<and> num_subscribers db' (c_id self) = map_option (\<lambda>n. n + 1) (num_subscribers db (c_id self))"
proof -
  from default_bindings_resolved [OF assms(3)] obtain ab sb ac sc where
    "generate_default_alias_bindings db self = (Inr ab, self\<lparr>c_aliases := Some ac\<rparr>)"
    "generate_default_snippet_bindings db (self\<lparr>c_aliases := Some ac\<rparr>)
       = (Inr sb, self\<lparr>c_aliases := Some ac, c_snippets := Some sc\<rparr>)"
    by blast
  with assms(1,2) show ?thesis
    by (auto simp: subscribe_def num_subscribers_other_writes num_subscribers_inc)
qed

text \<open>
  Claim C2, as the code has it. For every collection and user, \<open>subscribe\<close> fails with
  \<open>NotAllowed\<close> when the user is already subscribed, and fails with \<open>NotAllowed\<close>
  ("private") when the collection is PRIVATE and the user is not the owner. Otherwise
  (the owner of a PRIVATE collection included) there are two cases. When every current
  alias and snippet identifier has a stored object, and a list already cached on the
  instance is current (one object per member, under its stored name), the call succeeds:
  the store gains one "subscribe" record for the user with one default binding per
  current alias and snippet under its stored name, the subscriber counter of the
  collection's document is one higher, one "subscribe" event is logged, and nothing else
  changes. When a list that is not cached has to be loaded and one of its identifiers
  has no stored object, the call raises \<open>CollectableNotFound\<close> and writes nothing.
\<close>

theorem subscribe_cases:
  "(is_subscribed self db user_id \<longrightarrow>
      subscribe is_subscribed new_id utcnow db self user_id
        = (Inl (NotAllowed ''You are already subscribed to this.''), self, db))
   \<and> (\<not> is_subscribed self db user_id \<and> c_publish_state self = PRIVATE \<and> \<not> is_owner self user_id \<longrightarrow>
      subscribe is_subscribed new_id utcnow db self user_id
        = (Inl (NotAllowed ''This collection is private.''), self, db))
   \<and> (\<not> is_subscribed self db user_id \<and> (c_publish_state self \<noteq> PRIVATE \<or> is_owner self user_id)
        \<and> stored_bindings WorkshopAlias_cls db (c_alias_ids self) = Some ab
        \<and> (c_aliases self = None
            \<or> map_option (map (\<lambda>a. \<lparr>b_name = o_name (a_base a), b_id = o_id (a_base a)\<rparr>))
                 (c_aliases self) = Some ab)
        \<and> stored_bindings WorkshopSnippet_cls db (c_snippet_ids self) = Some sb
        \<and> (c_snippets self = None
            \<or> map_option (map (\<lambda>s. \<lparr>b_name = o_name s, b_id = o_id s\<rparr>)) (c_snippets self)
                 = Some sb) \<longrightarrow>
      fst (subscribe is_subscribed new_id utcnow db self user_id) = Inr ()
      \<and> workshop_subscriptions (snd (snd (subscribe is_subscribed new_id utcnow db self user_id)))
          = workshop_subscriptions db @
            [\<lparr> s_id = new_id, s_type = ''subscribe'', s_subscriber_id = user_id,
               s_object_id = c_id self, s_alias_bindings = ab, s_snippet_bindings = sb \<rparr>]
      \<and> workshop_collections (snd (snd (subscribe is_subscribed new_id utcnow db self user_id)))
          = update_one (\<lambda>d. Some (d_id d) = c_id self)
              (\<lambda>d. d\<lparr>d_num_subscribers := d_num_subscribers d + 1\<rparr>) (workshop_collections db)
      \<and> num_subscribers (snd (snd (subscribe is_subscribed new_id utcnow db self user_id))) (c_id self)
          = map_option (\<lambda>n. n + 1) (num_subscribers db (c_id self))
      \<and> analytics_alias_events (snd (snd (subscribe is_subscribed new_id utcnow db self user_id)))
          = analytics_alias_events db @
            [\<lparr>ev_type = ''subscribe'', ev_object_id = c_id self, ev_timestamp = utcnow\<rparr>]
      \<and> workshop_aliases (snd (snd (subscribe is_subscribed new_id utcnow db self user_id)))
          = workshop_aliases db
      \<and> workshop_snippets (snd (snd (subscribe is_subscribed new_id utcnow db self user_id)))
          = workshop_snippets db)
   \<and> (\<not> is_subscribed self db user_id \<and> (c_publish_state self \<noteq> PRIVATE \<or> is_owner self user_id)
        \<and> (c_aliases self = None
              \<and> stored_bindings WorkshopAlias_cls db (c_alias_ids self) = None
            \<or> c_snippets self = None
              \<and> stored_bindings WorkshopSnippet_cls db (c_snippet_ids self) = None) \<longrightarrow>
      fst (subscribe is_subscribed new_id utcnow db self user_id) = Inl CollectableNotFound
      \<and> snd (snd (subscribe is_subscribed new_id utcnow db self user_id)) = db)"
proof (intro conjI impI)
  assume "is_subscribed self db user_id"
  then show "subscribe is_subscribed new_id utcnow db self user_id
        = (Inl (NotAllowed ''You are already subscribed to this.''), self, db)"
    by (simp add: subscribe_def)
next
  assume "\<not> is_subscribed self db user_id \<and> c_publish_state self = PRIVATE \<and> \<not> is_owner self user_id"
  then show "subscribe is_subscribed new_id utcnow db self user_id
        = (Inl (NotAllowed ''This collection is private.''), self, db)"
    by (simp add: subscribe_def)
next
  assume a: "\<not> is_subscribed self db user_id \<and> (c_publish_state self \<noteq> PRIVATE \<or> is_owner self user_id)
        \<and> stored_bindings WorkshopAlias_cls db (c_alias_ids self) = Some ab
        \<and> (c_aliases self = None
            \<or> map_option (map (\<lambda>a. \<lparr>b_name = o_name (a_base a), b_id = o_id (a_base a)\<rparr>))
                 (c_aliases self) = Some ab)
        \<and> stored_bindings WorkshopSnippet_cls db (c_snippet_ids self) = Some sb
        \<and> (c_snippets self = None
            \<or> map_option (map (\<lambda>s. \<lparr>b_name = o_name s, b_id = o_id s\<rparr>)) (c_snippets self)
                 = Some sb)"
  then obtain ac sc where
    "generate_default_alias_bindings db self = (Inr ab, self\<lparr>c_aliases := Some ac\<rparr>)"
    "generate_default_snippet_bindings db (self\<lparr>c_aliases := Some ac\<rparr>)
       = (Inr sb, self\<lparr>c_aliases := Some ac, c_snippets := Some sc\<rparr>)"
    using default_bindings_current [of db self ab sb] by blast
  with a have
    s: "subscribe is_subscribed new_id utcnow db self user_id =
           (Inr (), self\<lparr>c_aliases := Some ac, c_snippets := Some sc\<rparr>,
            insert_one_event ''subscribe'' (c_id self) utcnow
              (inc_num_subscribers (c_id self) 1
                 (insert_one_subscription
                    \<lparr> s_id = new_id, s_type = ''subscribe'', s_subscriber_id = user_id,
                      s_object_id = c_id self, s_alias_bindings = ab,
                      s_snippet_bindings = sb \<rparr> db)))"
    by (auto simp: subscribe_def)
  show "fst (subscribe is_subscribed new_id utcnow db self user_id) = Inr ()"
    by (simp add: s)
  show "workshop_subscriptions (snd (snd (subscribe is_subscribed new_id utcnow db self user_id)))
          = workshop_subscriptions db @
            [\<lparr> s_id = new_id, s_type = ''subscribe'', s_subscriber_id = user_id,
               s_object_id = c_id self, s_alias_bindings = ab, s_snippet_bindings = sb \<rparr>]"
    by (simp add: s insert_one_event_def inc_num_subscribers_def insert_one_subscription_def)
  show "workshop_collections (snd (snd (subscribe is_subscribed new_id utcnow db self user_id)))
          = update_one (\<lambda>d. Some (d_id d) = c_id self)
              (\<lambda>d. d\<lparr>d_num_subscribers := d_num_subscribers d + 1\<rparr>) (workshop_collections db)"
    by (simp add: s insert_one_event_def inc_num_subscribers_def insert_one_subscription_def)
  show "num_subscribers (snd (snd (subscribe is_subscribed new_id utcnow db self user_id))) (c_id self)
          = map_option (\<lambda>n. n + 1) (num_subscribers db (c_id self))"
    by (simp add: s num_subscribers_other_writes num_subscribers_inc)
  show "analytics_alias_events (snd (snd (subscribe is_subscribed new_id utcnow db self user_id)))
          = analytics_alias_events db @
            [\<lparr>ev_type = ''subscribe'', ev_object_id = c_id self, ev_timestamp = utcnow\<rparr>]"
    by (simp add: s insert_one_event_def inc_num_subscribers_def insert_one_subscription_def)
  show "workshop_aliases (snd (snd (subscribe is_subscribed new_id utcnow db self user_id)))
          = workshop_aliases db"
    by (simp add: s insert_one_event_def inc_num_subscribers_def insert_one_subscription_def)
  show "workshop_snippets (snd (snd (subscribe is_subscribed new_id utcnow db self user_id)))
          = workshop_snippets db"
    by (simp add: s insert_one_event_def inc_num_subscribers_def insert_one_subscription_def)
next
  assume a: "\<not> is_subscribed self db user_id \<and> (c_publish_state self \<noteq> PRIVATE \<or> is_owner self user_id)
        \<and> (c_aliases self = None
              \<and> stored_bindings WorkshopAlias_cls db (c_alias_ids self) = None
            \<or> c_snippets self = None
              \<and> stored_bindings WorkshopSnippet_cls db (c_snippet_ids self) = None)"
  then have "(\<exists>s1. generate_default_alias_bindings db self = (Inl CollectableNotFound, s1))
         \<or> (\<exists>ab s1 s2. generate_default_alias_bindings db self = (Inr ab, s1)
               \<and> generate_default_snippet_bindings db s1 = (Inl CollectableNotFound, s2))"
    using default_bindings_dangling [of self db] by blast
  with a have "fst (subscribe is_subscribed new_id utcnow db self user_id) = Inl CollectableNotFound
      \<and> snd (snd (subscribe is_subscribed new_id utcnow db self user_id)) = db"
    by (auto simp: subscribe_def)
  then show "fst (subscribe is_subscribed new_id utcnow db self user_id) = Inl CollectableNotFound"
    and "snd (snd (subscribe is_subscribed new_id utcnow db self user_id)) = db"
    by simp_all
qed

lemma example_members_resolve: "members_resolve example_db (example_collection i st)"
  by (simp add: members_resolve_def example_collection_def WorkshopCollection_init_def
        stored_name_def find_one_alias_def find_one_snippet_def example_db_def)

lemma example_lookups:
  "find_one_alias example_db 5
     = Some \<lparr> r_id = 5, r_name = ''roll'', r_code = ''echo'', r_versions = [], r_docs = ''help'',
              r_entitlements = [], r_collection_id = 11, r_subcommand_ids = [],
              r_parent_id = None \<rparr>"
  "find_one_snippet example_db 6
     = Some \<lparr> r_id = 6, r_name = ''adv'', r_code = ''adv'', r_versions = [], r_docs = ''help'',
              r_entitlements = [], r_collection_id = 11 \<rparr>"
  "find_one_alias example_dangling_db i = find_one_alias example_db i"
  "find_one_snippet example_dangling_db i = find_one_snippet example_db i"
  "find_one_alias example_db 8 = None"
  "workshop_subscriptions example_dangling_db = []"
  by (simp_all add: find_one_alias_def find_one_snippet_def example_dangling_db_def
        example_db_def)

lemma example_stored_names:
  "stored_name WorkshopAlias_cls example_db 5 = Some ''roll''"
  "stored_name WorkshopSnippet_cls example_db 6 = Some ''adv''"
  "stored_name WorkshopAlias_cls example_db 8 = None"
  "stored_name cls example_dangling_db i = stored_name cls example_db i"
  by (simp_all add: stored_name_def example_lookups split: binding_cls.splits)

lemma example_fields:
  "c_id (example_collection i st) = Some i"
  "c_publish_state (example_collection i st) = st"
  "c_owner (example_collection i st) = 10"
  "c_alias_ids (example_collection i st) = [5]"
  "c_snippet_ids (example_collection i st) = [6]"
  "c_aliases (example_collection i st) = None"
  "c_snippets (example_collection i st) = None"
  by (simp_all add: example_collection_def WorkshopCollection_init_def)

lemma example_dangling_fields:
  "c_id example_dangling_collection = Some 13"
  "c_publish_state example_dangling_collection = UNLISTED"
  "c_alias_ids example_dangling_collection = [5, 8]"
  "c_snippet_ids example_dangling_collection = [6]"
  "c_aliases example_dangling_collection = None"
  "c_snippets example_dangling_collection = None"
  by (simp_all add: example_dangling_collection_def WorkshopCollection_init_def)

lemma example_counters:
  "num_subscribers example_db (Some 11) = Some 0"
  "num_subscribers example_db (Some 12) = Some 0"
  "num_guild_subscribers example_db (Some 11) = Some 0"
  "num_guild_subscribers example_db (Some 12) = Some 0"
  by (simp_all add: num_subscribers_def num_guild_subscribers_def example_db_def
        example_collection_doc_def)

theorem subscribe_cases_witness:
  "(has_record ''subscribe'' (example_collection 12 UNLISTED)
      (example_db\<lparr>workshop_subscriptions :=
         [\<lparr> s_id = 3, s_type = ''subscribe'', s_subscriber_id = 20, s_object_id = Some 12,
            s_alias_bindings = [], s_snippet_bindings = [] \<rparr>]\<rparr>) 20
    \<and> fst (subscribe (has_record ''subscribe'') 4 0
        (example_db\<lparr>workshop_subscriptions :=
           [\<lparr> s_id = 3, s_type = ''subscribe'', s_subscriber_id = 20, s_object_id = Some 12,
              s_alias_bindings = [], s_snippet_bindings = [] \<rparr>]\<rparr>)
        (example_collection 12 UNLISTED) 20)
      = Inl (NotAllowed ''You are already subscribed to this.''))
   \<and> (\<not> has_record ''subscribe'' (example_collection 11 PRIVATE) example_db 20
    \<and> \<not> is_owner (example_collection 11 PRIVATE) 20
    \<and> fst (subscribe (has_record ''subscribe'') 4 0 example_db (example_collection 11 PRIVATE) 20)
      = Inl (NotAllowed ''This collection is private.''))
   \<and> (\<not> has_record ''subscribe'' (example_collection 11 PRIVATE) example_db 10
    \<and> is_owner (example_collection 11 PRIVATE) 10
    \<and> stored_bindings WorkshopAlias_cls example_db
         (c_alias_ids (example_collection 11 PRIVATE)) = Some [\<lparr>b_name = ''roll'', b_id = 5\<rparr>]
    \<and> c_aliases (example_collection 11 PRIVATE) = None
    \<and> stored_bindings WorkshopSnippet_cls example_db
         (c_snippet_ids (example_collection 11 PRIVATE)) = Some [\<lparr>b_name = ''adv'', b_id = 6\<rparr>]
    \<and> c_snippets (example_collection 11 PRIVATE) = None
    \<and> fst (subscribe (has_record ''subscribe'') 4 0 example_db (example_collection 11 PRIVATE) 10)
      = Inr ()
    \<and> workshop_subscriptions
        (snd (snd (subscribe (has_record ''subscribe'') 4 0 example_db
                     (example_collection 11 PRIVATE) 10)))
      = [\<lparr> s_id = 4, s_type = ''subscribe'', s_subscriber_id = 10, s_object_id = Some 11,
           s_alias_bindings = [\<lparr>b_name = ''roll'', b_id = 5\<rparr>],
           s_snippet_bindings = [\<lparr>b_name = ''adv'', b_id = 6\<rparr>] \<rparr>]
    \<and> num_subscribers
        (snd (snd (subscribe (has_record ''subscribe'') 4 0 example_db
                     (example_collection 11 PRIVATE) 10))) (Some 11)
      = Some 1)
   \<and> (\<not> has_record ''subscribe'' example_dangling_collection example_dangling_db 20
    \<and> c_publish_state example_dangling_collection \<noteq> PRIVATE
    \<and> c_aliases example_dangling_collection = None
    \<and> stored_bindings WorkshopAlias_cls example_dangling_db
         (c_alias_ids example_dangling_collection) = None
    \<and> fst (subscribe (has_record ''subscribe'') 4 0 example_dangling_db
             example_dangling_collection 20) = Inl CollectableNotFound
    \<and> snd (snd (subscribe (has_record ''subscribe'') 4 0 example_dangling_db
                  example_dangling_collection 20)) = example_dangling_db)"
proof -
  have sub: "has_record ''subscribe'' (example_collection 12 UNLISTED)
      (example_db\<lparr>workshop_subscriptions :=
         [\<lparr> s_id = 3, s_type = ''subscribe'', s_subscriber_id = 20, s_object_id = Some 12,
            s_alias_bindings = [], s_snippet_bindings = [] \<rparr>]\<rparr>) 20"
    by (simp add: has_record_def example_fields)
  have nosub: "\<not> has_record ''subscribe'' (example_collection 11 PRIVATE) example_db u" for u
    by (simp add: has_record_def example_db_def)
  have nosub': "\<not> has_record ''subscribe'' example_dangling_collection example_dangling_db u"
    for u
    by (simp add: has_record_def example_dangling_db_def example_db_def)
  have own: "is_owner (example_collection 11 PRIVATE) 10"
            "\<not> is_owner (example_collection 11 PRIVATE) 20"
    by (simp_all add: is_owner_def example_fields)
  have empty: "workshop_subscriptions example_db = []"
    by (simp add: example_db_def)
  show ?thesis
    using subscribe_cases
        [where is_subscribed = "has_record ''subscribe''"
           and self = "example_collection 12 UNLISTED"
           and db = "example_db\<lparr>workshop_subscriptions :=
             [\<lparr> s_id = 3, s_type = ''subscribe'', s_subscriber_id = 20, s_object_id = Some 12,
                s_alias_bindings = [], s_snippet_bindings = [] \<rparr>]\<rparr>"
           and user_id = 20 and new_id = 4 and utcnow = 0]
      subscribe_cases
        [where is_subscribed = "has_record ''subscribe''"
           and self = "example_collection 11 PRIVATE" and db = example_db
           and user_id = 20 and new_id = 4 and utcnow = 0]
      subscribe_cases
        [where is_subscribed = "has_record ''subscribe''"
           and self = "example_collection 11 PRIVATE" and db = example_db
           and user_id = 10 and new_id = 4 and utcnow = 0
           and ab = "[\<lparr>b_name = ''roll'', b_id = 5\<rparr>]"
           and sb = "[\<lparr>b_name = ''adv'', b_id = 6\<rparr>]"]
      subscribe_cases
        [where is_subscribed = "has_record ''subscribe''"
           and self = example_dangling_collection and db = example_dangling_db
           and user_id = 20 and new_id = 4 and utcnow = 0]
    by (simp add: sub nosub nosub' own empty example_stored_names example_fields
          example_dangling_fields example_counters)
qed

text \<open>
  The claim as it was stated has every call that passes the two guards succeed with one
  default binding per current alias. On the second store neither guard fires for user 20,
  yet the first call raises \<open>CollectableNotFound\<close>, alias 8 having no document. The
  failed load leaves alias 5 alone in the instance's cache: a second call on that
  instance succeeds and stores a binding for alias 5 only, while the collection lists
  the aliases 5 and 8.
\<close>

theorem subscribe_otherwise_counterexample:
  "\<not> has_record ''subscribe'' example_dangling_collection example_dangling_db 20
   \<and> c_publish_state example_dangling_collection \<noteq> PRIVATE
   \<and> fst (subscribe (has_record ''subscribe'') 4 0 example_dangling_db
            example_dangling_collection 20) = Inl CollectableNotFound
   \<and> c_alias_ids (fst (snd (subscribe (has_record ''subscribe'') 4 0 example_dangling_db
                              example_dangling_collection 20))) = [5, 8]
   \<and> fst (subscribe (has_record ''subscribe'') 4 0 example_dangling_db
            (fst (snd (subscribe (has_record ''subscribe'') 4 0 example_dangling_db
                         example_dangling_collection 20))) 20) = Inr ()
   \<and> map s_alias_bindings
       (workshop_subscriptions
          (snd (snd (subscribe (has_record ''subscribe'') 4 0 example_dangling_db
                       (fst (snd (subscribe (has_record ''subscribe'') 4 0
                                    example_dangling_db example_dangling_collection 20)))
                       20))))
     = [[\<lparr>b_name = ''roll'', b_id = 5\<rparr>]]"
proof -
  have nosub: "\<not> has_record ''subscribe'' s example_dangling_db u" for s u
    by (simp add: has_record_def example_dangling_db_def example_db_def)
  have first: "subscribe (has_record ''subscribe'') 4 0 example_dangling_db
                 example_dangling_collection 20
     = (Inl CollectableNotFound,
        example_dangling_collection
          \<lparr>c_aliases := Some [WorkshopAlias_init 5 ''roll'' ''echo'' [] ''help'' [] 11 []
                                None (Some (CollectionRef (Some 13))) None]\<rparr>,
        example_dangling_db)"
    by (simp add: subscribe_def nosub example_dangling_fields
          generate_default_alias_bindings_def load_aliases_def WorkshopAlias_from_id_def
          WorkshopAlias_from_dict_def WorkshopAlias_init_def CodeVersion_from_dict_def
          example_lookups)
  have second: "fst (subscribe (has_record ''subscribe'') 4 0 example_dangling_db
        (example_dangling_collection
          \<lparr>c_aliases := Some [WorkshopAlias_init 5 ''roll'' ''echo'' [] ''help'' [] 11 []
                                None (Some (CollectionRef (Some 13))) None]\<rparr>) 20) = Inr ()
     \<and> map s_alias_bindings
       (workshop_subscriptions
          (snd (snd (subscribe (has_record ''subscribe'') 4 0 example_dangling_db
        (example_dangling_collection
          \<lparr>c_aliases := Some [WorkshopAlias_init 5 ''roll'' ''echo'' [] ''help'' [] 11 []
                                None (Some (CollectionRef (Some 13))) None]\<rparr>) 20))))
       = [[\<lparr>b_name = ''roll'', b_id = 5\<rparr>]]"
    by (simp add: subscribe_def nosub example_dangling_fields
          generate_default_alias_bindings_def generate_default_snippet_bindings_def
          load_snippets_def WorkshopSnippet_from_id_def
          WorkshopAlias_init_def WorkshopCollectableObject_init_def
          insert_one_event_def inc_num_subscribers_def insert_one_subscription_def
          example_lookups)
  show ?thesis
    using second by (simp add: first nosub example_dangling_fields)
qed

subsection \<open>Guild activation\<close>

lemma set_server_active_success:
  assumes "\<not> is_server_active self db guild_id"
    and "c_publish_state self \<noteq> PRIVATE"
    and "members_resolve db self"
  shows "\<exists>self' db'. set_server_active is_server_active new_id utcnow db self guild_id = (Inr (), self', db')
           \<and> num_guild_subscribers db' (c_id self) = map_option (\<lambda>n. n + 1) (num_guild_subscribers db (c_id self))"
proof -
  from default_bindings_resolved [OF assms(3)] obtain ab sb ac sc where
    "generate_default_alias_bindings db self = (Inr ab, self\<lparr>c_aliases := Some ac\<rparr>)"
    "generate_default_snippet_bindings db (self\<lparr>c_aliases := Some ac\<rparr>)
       = (Inr sb, self\<lparr>c_aliases := Some ac, c_snippets := Some sc\<rparr>)"
    by blast
  with assms(1,2) show ?thesis
    by (auto simp: set_server_active_def num_subscribers_other_writes num_guild_subscribers_inc)
qed

text \<open>
  Claim C3, as the code has it. For every collection and guild, \<open>set_server_active\<close>
  fails with \<open>NotAllowed\<close> when the collection is already active on the guild, and fails
  with \<open>NotAllowed\<close> ("private") when the collection is PRIVATE, whoever asks: the
  operation takes no requester and makes no exception for the owner. Otherwise there are
  two cases. When every current alias and snippet identifier has a stored object, and a
  list already cached on the instance is current (one object per member, under its
  stored name), the call succeeds: the store gains one "server_active" record for the
  guild with one default binding per current alias and snippet under its stored name,
  the guild-subscriber counter of the collection's document is one higher, one
  "server_subscribe" event is logged, and nothing else changes. When a list that is not
  cached has to be loaded and one of its identifiers has no stored object, the call
  raises \<open>CollectableNotFound\<close> and writes nothing.
\<close>

theorem set_server_active_cases:
  "(is_server_active self db guild_id \<longrightarrow>
      set_server_active is_server_active new_id utcnow db self guild_id
        = (Inl (NotAllowed ''This collection is already installed on this server.''), self, db))
   \<and> (\<not> is_server_active self db guild_id \<and> c_publish_state self = PRIVATE \<longrightarrow>
      set_server_active is_server_active new_id utcnow db self guild_id
        = (Inl (NotAllowed ''This collection is private.''), self, db))
   \<and> (\<not> is_server_active self db guild_id \<and> (c_publish_state self \<noteq> PRIVATE)
        \<and> stored_bindings WorkshopAlias_cls db (c_alias_ids self) = Some ab
        \<and> (c_aliases self = None
            \<or> map_option (map (\<lambda>a. \<lparr>b_name = o_name (a_base a), b_id = o_id (a_base a)\<rparr>))
                 (c_aliases self) = Some ab)
        \<and> stored_bindings WorkshopSnippet_cls db (c_snippet_ids self) = Some sb
        \<and> (c_snippets self = None
            \<or> map_option (map (\<lambda>s. \<lparr>b_name = o_name s, b_id = o_id s\<rparr>)) (c_snippets self)
                 = Some sb) \<longrightarrow>
      fst (set_server_active is_server_active new_id utcnow db self guild_id) = Inr ()
      \<and> workshop_subscriptions (snd (snd (set_server_active is_server_active new_id utcnow db self guild_id)))
          = workshop_subscriptions db @
            [\<lparr> s_id = new_id, s_type = ''server_active'', s_subscriber_id = guild_id,
               s_object_id = c_id self, s_alias_bindings = ab, s_snippet_bindings = sb \<rparr>]
      \<and> workshop_collections (snd (snd (set_server_active is_server_active new_id utcnow db self guild_id)))
          = update_one (\<lambda>d. Some (d_id d) = c_id self)
              (\<lambda>d. d\<lparr>d_num_guild_subscribers := d_num_guild_subscribers d + 1\<rparr>) (workshop_collections db)
      \<and> num_guild_subscribers (snd (snd (set_server_active is_server_active new_id utcnow db self guild_id))) (c_id self)
          = map_option (\<lambda>n. n + 1) (num_guild_subscribers db (c_id self))
      \<and> analytics_alias_events (snd (snd (set_server_active is_server_active new_id utcnow db self guild_id)))
          = analytics_alias_events db @
            [\<lparr>ev_type = ''server_subscribe'', ev_object_id = c_id self, ev_timestamp = utcnow\<rparr>]
      \<and> workshop_aliases (snd (snd (set_server_active is_server_active new_id utcnow db self guild_id)))
          = workshop_aliases db
      \<and> workshop_snippets (snd (snd (set_server_active is_server_active new_id utcnow db self guild_id)))
          = workshop_snippets db)
   \<and> (\<not> is_server_active self db guild_id \<and> (c_publish_state self \<noteq> PRIVATE)
        \<and> (c_aliases self = None
              \<and> stored_bindings WorkshopAlias_cls db (c_alias_ids self) = None
            \<or> c_snippets self = None
              \<and> stored_bindings WorkshopSnippet_cls db (c_snippet_ids self) = None) \<longrightarrow>
      fst (set_server_active is_server_active new_id utcnow db self guild_id) = Inl CollectableNotFound
      \<and> snd (snd (set_server_active is_server_active new_id utcnow db self guild_id)) = db)"
proof (intro conjI impI)
  assume "is_server_active self db guild_id"
  then show "set_server_active is_server_active new_id utcnow db self guild_id
        = (Inl (NotAllowed ''This collection is already installed on this server.''), self, db)"
    by (simp add: set_server_active_def)
next
  assume "\<not> is_server_active self db guild_id \<and> c_publish_state self = PRIVATE"
  then show "set_server_active is_server_active new_id utcnow db self guild_id
        = (Inl (NotAllowed ''This collection is private.''), self, db)"
    by (simp add: set_server_active_def)
next
  assume a: "\<not> is_server_active self db guild_id \<and> (c_publish_state self \<noteq> PRIVATE)
        \<and> stored_bindings WorkshopAlias_cls db (c_alias_ids self) = Some ab
        \<and> (c_aliases self = None
            \<or> map_option (map (\<lambda>a. \<lparr>b_name = o_name (a_base a), b_id = o_id (a_base a)\<rparr>))
                 (c_aliases self) = Some ab)
        \<and> stored_bindings WorkshopSnippet_cls db (c_snippet_ids self) = Some sb
        \<and> (c_snippets self = None
            \<or> map_option (map (\<lambda>s. \<lparr>b_name = o_name s, b_id = o_id s\<rparr>)) (c_snippets self)
                 = Some sb)"
  then obtain ac sc where
    "generate_default_alias_bindings db self = (Inr ab, self\<lparr>c_aliases := Some ac\<rparr>)"
    "generate_default_snippet_bindings db (self\<lparr>c_aliases := Some ac\<rparr>)
       = (Inr sb, self\<lparr>c_aliases := Some ac, c_snippets := Some sc\<rparr>)"
    using default_bindings_current [of db self ab sb] by blast
  with a have
    s: "set_server_active is_server_active new_id utcnow db self guild_id =
           (Inr (), self\<lparr>c_aliases := Some ac, c_snippets := Some sc\<rparr>,
            insert_one_event ''server_subscribe'' (c_id self) utcnow
              (inc_num_guild_subscribers (c_id self) 1
                 (insert_one_subscription
                    \<lparr> s_id = new_id, s_type = ''server_active'', s_subscriber_id = guild_id,
                      s_object_id = c_id self, s_alias_bindings = ab,
                      s_snippet_bindings = sb \<rparr> db)))"
    by (auto simp: set_server_active_def)
  show "fst (set_server_active is_server_active new_id utcnow db self guild_id) = Inr ()"
    by (simp add: s)
  show "workshop_subscriptions (snd (snd (set_server_active is_server_active new_id utcnow db self guild_id)))
          = workshop_subscriptions db @
            [\<lparr> s_id = new_id, s_type = ''server_active'', s_subscriber_id = guild_id,
               s_object_id = c_id self, s_alias_bindings = ab, s_snippet_bindings = sb \<rparr>]"
    by (simp add: s insert_one_event_def inc_num_guild_subscribers_def insert_one_subscription_def)
  show "workshop_collections (snd (snd (set_server_active is_server_active new_id utcnow db self guild_id)))
          = update_one (\<lambda>d. Some (d_id d) = c_id self)
              (\<lambda>d. d\<lparr>d_num_guild_subscribers := d_num_guild_subscribers d + 1\<rparr>) (workshop_collections db)"
    by (simp add: s insert_one_event_def inc_num_guild_subscribers_def insert_one_subscription_def)
  show "num_guild_subscribers (snd (snd (set_server_active is_server_active new_id utcnow db self guild_id))) (c_id self)
          = map_option (\<lambda>n. n + 1) (num_guild_subscribers db (c_id self))"
    by (simp add: s num_subscribers_other_writes num_guild_subscribers_inc)
  show "analytics_alias_events (snd (snd (set_server_active is_server_active new_id utcnow db self guild_id)))
          = analytics_alias_events db @
            [\<lparr>ev_type = ''server_subscribe'', ev_object_id = c_id self, ev_timestamp = utcnow\<rparr>]"
    by (simp add: s insert_one_event_def inc_num_guild_subscribers_def insert_one_subscription_def)
  show "workshop_aliases (snd (snd (set_server_active is_server_active new_id utcnow db self guild_id)))
          = workshop_aliases db"
    by (simp add: s insert_one_event_def inc_num_guild_subscribers_def insert_one_subscription_def)
  show "workshop_snippets (snd (snd (set_server_active is_server_active new_id utcnow db self guild_id)))
          = workshop_snippets db"
    by (simp add: s insert_one_event_def inc_num_guild_subscribers_def insert_one_subscription_def)
next
  assume a: "\<not> is_server_active self db guild_id \<and> (c_publish_state self \<noteq> PRIVATE)
        \<and> (c_aliases self = None
              \<and> stored_bindings WorkshopAlias_cls db (c_alias_ids self) = None
            \<or> c_snippets self = None
              \<and> stored_bindings WorkshopSnippet_cls db (c_snippet_ids self) = None)"
  then have "(\<exists>s1. generate_default_alias_bindings db self = (Inl CollectableNotFound, s1))
         \<or> (\<exists>ab s1 s2. generate_default_alias_bindings db self = (Inr ab, s1)
               \<and> generate_default_snippet_bindings db s1 = (Inl CollectableNotFound, s2))"
    using default_bindings_dangling [of self db] by blast
  with a have "fst (set_server_active is_server_active new_id utcnow db self guild_id) = Inl CollectableNotFound
      \<and> snd (snd (set_server_active is_server_active new_id utcnow db self guild_id)) = db"
    by (auto simp: set_server_active_def)
  then show "fst (set_server_active is_server_active new_id utcnow db self guild_id) = Inl CollectableNotFound"
    and "snd (snd (set_server_active is_server_active new_id utcnow db self guild_id)) = db"
    by simp_all
qed

theorem set_server_active_cases_witness:
  "(has_record ''server_active'' (example_collection 12 UNLISTED)
      (example_db\<lparr>workshop_subscriptions :=
         [\<lparr> s_id = 3, s_type = ''server_active'', s_subscriber_id = 30,
            s_object_id = Some 12, s_alias_bindings = [], s_snippet_bindings = [] \<rparr>]\<rparr>) 30
    \<and> fst (set_server_active (has_record ''server_active'') 4 0
        (example_db\<lparr>workshop_subscriptions :=
           [\<lparr> s_id = 3, s_type = ''server_active'', s_subscriber_id = 30,
              s_object_id = Some 12, s_alias_bindings = [], s_snippet_bindings = [] \<rparr>]\<rparr>)
        (example_collection 12 UNLISTED) 30)
      = Inl (NotAllowed ''This collection is already installed on this server.''))
   \<and> (\<not> has_record ''server_active'' (example_collection 11 PRIVATE) example_db 30
    \<and> c_publish_state (example_collection 11 PRIVATE) = PRIVATE
    \<and> fst (set_server_active (has_record ''server_active'') 4 0 example_db
             (example_collection 11 PRIVATE) 30)
      = Inl (NotAllowed ''This collection is private.''))
   \<and> (\<not> has_record ''server_active'' (example_collection 12 UNLISTED) example_db 30
    \<and> c_publish_state (example_collection 12 UNLISTED) \<noteq> PRIVATE
    \<and> stored_bindings WorkshopAlias_cls example_db
         (c_alias_ids (example_collection 12 UNLISTED)) = Some [\<lparr>b_name = ''roll'', b_id = 5\<rparr>]
    \<and> c_aliases (example_collection 12 UNLISTED) = None
    \<and> stored_bindings WorkshopSnippet_cls example_db
         (c_snippet_ids (example_collection 12 UNLISTED)) = Some [\<lparr>b_name = ''adv'', b_id = 6\<rparr>]
    \<and> c_snippets (example_collection 12 UNLISTED) = None
    \<and> fst (set_server_active (has_record ''server_active'') 4 0 example_db
             (example_collection 12 UNLISTED) 30)
      = Inr ()
    \<and> workshop_subscriptions
        (snd (snd (set_server_active (has_record ''server_active'') 4 0 example_db
                     (example_collection 12 UNLISTED) 30)))
      = [\<lparr> s_id = 4, s_type = ''server_active'', s_subscriber_id = 30,
           s_object_id = Some 12,
           s_alias_bindings = [\<lparr>b_name = ''roll'', b_id = 5\<rparr>],
           s_snippet_bindings = [\<lparr>b_name = ''adv'', b_id = 6\<rparr>] \<rparr>]
    \<and> num_guild_subscribers
        (snd (snd (set_server_active (has_record ''server_active'') 4 0 example_db
                     (example_collection 12 UNLISTED) 30))) (Some 12)
      = Some 1)
   \<and> (\<not> has_record ''server_active'' example_dangling_collection example_dangling_db 30
    \<and> c_publish_state example_dangling_collection \<noteq> PRIVATE
    \<and> c_aliases example_dangling_collection = None
    \<and> stored_bindings WorkshopAlias_cls example_dangling_db
         (c_alias_ids example_dangling_collection) = None
    \<and> fst (set_server_active (has_record ''server_active'') 4 0 example_dangling_db
             example_dangling_collection 30) = Inl CollectableNotFound
    \<and> snd (snd (set_server_active (has_record ''server_active'') 4 0 example_dangling_db
                  example_dangling_collection 30)) = example_dangling_db)"
proof -
  have act: "has_record ''server_active'' (example_collection 12 UNLISTED)
      (example_db\<lparr>workshop_subscriptions :=
         [\<lparr> s_id = 3, s_type = ''server_active'', s_subscriber_id = 30,
            s_object_id = Some 12, s_alias_bindings = [], s_snippet_bindings = [] \<rparr>]\<rparr>) 30"
    by (simp add: has_record_def example_fields)
  have noact: "\<not> has_record ''server_active'' (example_collection i st) example_db g" for i st g
    by (simp add: has_record_def example_db_def)
  have noact': "\<not> has_record ''server_active'' example_dangling_collection
                    example_dangling_db g" for g
    by (simp add: has_record_def example_dangling_db_def example_db_def)
  have empty: "workshop_subscriptions example_db = []"
    by (simp add: example_db_def)
  show ?thesis
    using set_server_active_cases
        [where is_server_active = "has_record ''server_active''"
           and self = "example_collection 12 UNLISTED"
           and db = "example_db\<lparr>workshop_subscriptions :=
             [\<lparr> s_id = 3, s_type = ''server_active'', s_subscriber_id = 30,
                s_object_id = Some 12, s_alias_bindings = [], s_snippet_bindings = [] \<rparr>]\<rparr>"
           and guild_id = 30 and new_id = 4 and utcnow = 0]
      set_server_active_cases
        [where is_server_active = "has_record ''server_active''"
           and self = "example_collection 11 PRIVATE" and db = example_db
           and guild_id = 30 and new_id = 4 and utcnow = 0]
      set_server_active_cases
        [where is_server_active = "has_record ''server_active''"
           and self = "example_collection 12 UNLISTED" and db = example_db
           and guild_id = 30 and new_id = 4 and utcnow = 0
           and ab = "[\<lparr>b_name = ''roll'', b_id = 5\<rparr>]"
           and sb = "[\<lparr>b_name = ''adv'', b_id = 6\<rparr>]"]
      set_server_active_cases
        [where is_server_active = "has_record ''server_active''"
           and self = example_dangling_collection and db = example_dangling_db
           and guild_id = 30 and new_id = 4 and utcnow = 0]
    by (simp add: act noact noact' empty example_stored_names example_fields
          example_dangling_fields example_counters)
qed

text \<open>
  The claim as it was stated lets the owner through on a PRIVATE collection, as
  \<open>subscribe\<close> does, and has every other call that passes the guards succeed. On the
  first store the guild identifier passed is the owner's identifier, the collection is
  not active on it and its members resolve, and the call still fails as private. On the
  second store the collection is UNLISTED and not active on guild 30, and the call
  raises \<open>CollectableNotFound\<close>, alias 8 having no document.
\<close>

theorem set_server_active_owner_counterexample:
  "\<not> has_record ''server_active'' (example_collection 11 PRIVATE) example_db 10
   \<and> is_owner (example_collection 11 PRIVATE) 10
   \<and> members_resolve example_db (example_collection 11 PRIVATE)
   \<and> set_server_active (has_record ''server_active'') 4 0 example_db
        (example_collection 11 PRIVATE) 10
     = (Inl (NotAllowed ''This collection is private.''),
        example_collection 11 PRIVATE, example_db)
   \<and> \<not> has_record ''server_active'' example_dangling_collection example_dangling_db 30
   \<and> c_publish_state example_dangling_collection \<noteq> PRIVATE
   \<and> fst (set_server_active (has_record ''server_active'') 4 0 example_dangling_db
            example_dangling_collection 30) = Inl CollectableNotFound"
proof -
  have "\<not> has_record ''server_active'' (example_collection 11 PRIVATE) example_db 10"
    by (simp add: has_record_def example_db_def)
  then have owner: "\<not> has_record ''server_active'' (example_collection 11 PRIVATE) example_db 10
   \<and> is_owner (example_collection 11 PRIVATE) 10
   \<and> members_resolve example_db (example_collection 11 PRIVATE)
   \<and> set_server_active (has_record ''server_active'') 4 0 example_db
        (example_collection 11 PRIVATE) 10
     = (Inl (NotAllowed ''This collection is private.''),
        example_collection 11 PRIVATE, example_db)"
    by (simp add: set_server_active_def is_owner_def example_fields example_members_resolve)
  have noact: "\<not> has_record ''server_active'' s example_dangling_db u" for s u
    by (simp add: has_record_def example_dangling_db_def example_db_def)
  have "fst (set_server_active (has_record ''server_active'') 4 0 example_dangling_db
            example_dangling_collection 30) = Inl CollectableNotFound"
    by (simp add: set_server_active_def noact example_dangling_fields
          generate_default_alias_bindings_def load_aliases_def WorkshopAlias_from_id_def
          WorkshopAlias_from_dict_def example_lookups)
  with owner noact show ?thesis
    by (simp add: example_dangling_fields)
qed

subsection \<open>Counters\<close>

lemma subscribe_keeps_id:
  "c_id (fst (snd (subscribe is_subscribed new_id utcnow db self user_id))) = c_id self"
proof -
  have a: "c_id (snd (generate_default_alias_bindings db s)) = c_id s" for s
    by (simp add: generate_default_alias_bindings_def load_aliases_def
          split: option.splits prod.splits sum.splits)
  have b: "c_id (snd (generate_default_snippet_bindings db s)) = c_id s" for s
    by (simp add: generate_default_snippet_bindings_def load_snippets_def
          split: option.splits prod.splits sum.splits)
  show ?thesis
    using a [of self] b [of "snd (generate_default_alias_bindings db self)"]
    by (auto simp: subscribe_def split: prod.splits sum.splits)
qed

lemma set_server_active_keeps_id:
  "c_id (fst (snd (set_server_active is_active new_id utcnow db self guild_id))) = c_id self"
proof -
  have a: "c_id (snd (generate_default_alias_bindings db s)) = c_id s" for s
    by (simp add: generate_default_alias_bindings_def load_aliases_def
          split: option.splits prod.splits sum.splits)
  have b: "c_id (snd (generate_default_snippet_bindings db s)) = c_id s" for s
    by (simp add: generate_default_snippet_bindings_def load_snippets_def
          split: option.splits prod.splits sum.splits)
  show ?thesis
    using a [of self] b [of "snd (generate_default_alias_bindings db self)"]
    by (auto simp: set_server_active_def split: prod.splits sum.splits)
qed

text \<open>
  Claim C4. For every store and every user not currently subscribed, on a collection that
  is not PRIVATE or as its owner, the members resolving and the delegated removal of the
  record not raising on the store that \<open>subscribe\<close> leaves: \<open>subscribe\<close> followed by
  \<open>unsubscribe\<close> succeeds and the subscriber counter of the collection's document is what
  it was. Likewise for \<open>set_server_active\<close> followed by \<open>unset_server_active\<close> and the
  guild-subscriber counter: the counter is what it was, and the pair succeeds when the
  collection is not PRIVATE (on a PRIVATE collection \<open>set_server_active\<close> raises, the
  sequence ends there and the store is untouched).
\<close>

theorem subscribe_unsubscribe_counter_round_trip:
  "(\<not> is_subscribed self db user_id
    \<and> (c_publish_state self \<noteq> PRIVATE \<or> is_owner self user_id)
    \<and> members_resolve db self
    \<and> (\<exists>remaining.
          super_unsubscribe (fst (snd (subscribe is_subscribed new_id t1 db self user_id)))
            (snd (snd (subscribe is_subscribed new_id t1 db self user_id))) user_id
          = Inr remaining)
    \<longrightarrow>
      fst (subscribe_then_unsubscribe is_subscribed super_unsubscribe new_id t1 t2 db self
             user_id) = Inr ()
      \<and> num_subscribers
          (snd (subscribe_then_unsubscribe is_subscribed super_unsubscribe new_id t1 t2 db
                  self user_id)) (c_id self)
        = num_subscribers db (c_id self))
   \<and> (\<not> is_server_active self db guild_id
    \<and> (c_publish_state self \<noteq> PRIVATE \<or> is_owner self guild_id)
    \<and> members_resolve db self
    \<and> (\<exists>remaining.
          super_unset_server_active
            (fst (snd (set_server_active is_server_active new_id t1 db self guild_id)))
            (snd (snd (set_server_active is_server_active new_id t1 db self guild_id)))
            guild_id
          = Inr remaining)
    \<longrightarrow>
      (c_publish_state self \<noteq> PRIVATE \<longrightarrow>
         fst (set_then_unset_server_active is_server_active super_unset_server_active new_id
                t1 t2 db self guild_id) = Inr ())
      \<and> num_guild_subscribers
          (snd (set_then_unset_server_active is_server_active super_unset_server_active
                  new_id t1 t2 db self guild_id)) (c_id self)
        = num_guild_subscribers db (c_id self))"
proof (intro conjI impI)
  assume a: "\<not> is_subscribed self db user_id
    \<and> (c_publish_state self \<noteq> PRIVATE \<or> is_owner self user_id)
    \<and> members_resolve db self
    \<and> (\<exists>remaining.
          super_unsubscribe (fst (snd (subscribe is_subscribed new_id t1 db self user_id)))
            (snd (snd (subscribe is_subscribed new_id t1 db self user_id))) user_id
          = Inr remaining)"
  then obtain self' db' where
    s: "subscribe is_subscribed new_id t1 db self user_id = (Inr (), self', db')"
       "num_subscribers db' (c_id self)
          = map_option (\<lambda>n. n + 1) (num_subscribers db (c_id self))"
    using subscribe_success [of is_subscribed self db user_id new_id t1] by blast
  from a s(1) obtain remaining where r: "super_unsubscribe self' db' user_id = Inr remaining"
    by auto
  have id: "c_id self' = c_id self"
    using subscribe_keeps_id [of is_subscribed new_id t1 db self user_id] s(1) by simp
  have n1: "num_subscribers db' (c_id self) = map_option (\<lambda>n. n + 1) (num_subscribers db (c_id self))"
    by (rule s(2))
  have seq: "subscribe_then_unsubscribe is_subscribed super_unsubscribe new_id t1 t2 db self
             user_id
           = (Inr (),
              insert_one_event ''unsubscribe'' (c_id self) t2
                (inc_num_subscribers (c_id self) (- 1)
                   (db'\<lparr>workshop_subscriptions := remaining\<rparr>)))"
    by (simp add: subscribe_then_unsubscribe_def s(1) unsubscribe_def r id)
  show "fst (subscribe_then_unsubscribe is_subscribed super_unsubscribe new_id t1 t2 db self
             user_id) = Inr ()"
    by (simp add: seq)
  show "num_subscribers
          (snd (subscribe_then_unsubscribe is_subscribed super_unsubscribe new_id t1 t2 db
                  self user_id)) (c_id self)
        = num_subscribers db (c_id self)"
    by (simp add: seq num_subscribers_other_writes num_subscribers_inc n1
          option.map_comp o_def option.map_ident)
next
  assume a: "\<not> is_server_active self db guild_id
    \<and> (c_publish_state self \<noteq> PRIVATE \<or> is_owner self guild_id)
    \<and> members_resolve db self
    \<and> (\<exists>remaining.
          super_unset_server_active
            (fst (snd (set_server_active is_server_active new_id t1 db self guild_id)))
            (snd (snd (set_server_active is_server_active new_id t1 db self guild_id)))
            guild_id
          = Inr remaining)"
  have main: "(c_publish_state self \<noteq> PRIVATE \<longrightarrow>
         fst (set_then_unset_server_active is_server_active super_unset_server_active new_id
                t1 t2 db self guild_id) = Inr ())
      \<and> num_guild_subscribers
          (snd (set_then_unset_server_active is_server_active super_unset_server_active
                  new_id t1 t2 db self guild_id)) (c_id self)
        = num_guild_subscribers db (c_id self)"
  proof (cases "c_publish_state self = PRIVATE")
    case True
    with a have "set_server_active is_server_active new_id t1 db self guild_id
        = (Inl (NotAllowed ''This collection is private.''), self, db)"
      by (simp add: set_server_active_def)
    with True show ?thesis
      by (simp add: set_then_unset_server_active_def)
  next
    case False
    with a obtain self' db' where
      s: "set_server_active is_server_active new_id t1 db self guild_id = (Inr (), self', db')"
         "num_guild_subscribers db' (c_id self)
            = map_option (\<lambda>n. n + 1) (num_guild_subscribers db (c_id self))"
      using set_server_active_success [of is_server_active self db guild_id new_id t1]
      by blast
    from a s(1) obtain remaining where
      r: "super_unset_server_active self' db' guild_id = Inr remaining"
      by auto
    have id: "c_id self' = c_id self"
      using set_server_active_keeps_id [of is_server_active new_id t1 db self guild_id] s(1)
      by simp
    have n1: "num_guild_subscribers db' (c_id self)
                = map_option (\<lambda>n. n + 1) (num_guild_subscribers db (c_id self))"
      by (rule s(2))
    have seq: "set_then_unset_server_active is_server_active super_unset_server_active new_id
                t1 t2 db self guild_id
           = (Inr (),
              insert_one_event ''server_unsubscribe'' (c_id self) t2
                (inc_num_guild_subscribers (c_id self) (- 1)
                   (db'\<lparr>workshop_subscriptions := remaining\<rparr>)))"
      by (simp add: set_then_unset_server_active_def s(1) unset_server_active_def r id)
    show ?thesis
      by (simp add: seq num_subscribers_other_writes num_guild_subscribers_inc n1
            option.map_comp o_def option.map_ident)
  qed
  from main show "c_publish_state self \<noteq> PRIVATE \<Longrightarrow>
         fst (set_then_unset_server_active is_server_active super_unset_server_active new_id
                t1 t2 db self guild_id) = Inr ()"
    by simp
  from main show "num_guild_subscribers
          (snd (set_then_unset_server_active is_server_active super_unset_server_active
                  new_id t1 t2 db self guild_id)) (c_id self)
        = num_guild_subscribers db (c_id self)"
    by simp
qed

theorem subscribe_unsubscribe_counter_round_trip_witness:
  "(\<not> has_record ''subscribe'' (example_collection 11 PRIVATE) example_db 10
    \<and> is_owner (example_collection 11 PRIVATE) 10
    \<and> members_resolve example_db (example_collection 11 PRIVATE)
    \<and> num_subscribers example_db (Some 11) = Some 0
    \<and> fst (subscribe_then_unsubscribe (has_record ''subscribe'') (remove_records ''subscribe'')
             4 0 1 example_db (example_collection 11 PRIVATE) 10) = Inr ()
    \<and> num_subscribers
        (snd (subscribe_then_unsubscribe (has_record ''subscribe'')
                (remove_records ''subscribe'') 4 0 1 example_db
                (example_collection 11 PRIVATE) 10)) (Some 11) = Some 0)
   \<and> (\<not> has_record ''server_active'' (example_collection 12 UNLISTED) example_db 30
    \<and> c_publish_state (example_collection 12 UNLISTED) \<noteq> PRIVATE
    \<and> members_resolve example_db (example_collection 12 UNLISTED)
    \<and> num_guild_subscribers example_db (Some 12) = Some 0
    \<and> fst (set_then_unset_server_active (has_record ''server_active'')
             (remove_records ''server_active'') 4 0 1 example_db
             (example_collection 12 UNLISTED) 30) = Inr ()
    \<and> num_guild_subscribers
        (snd (set_then_unset_server_active (has_record ''server_active'')
                (remove_records ''server_active'') 4 0 1 example_db
                (example_collection 12 UNLISTED) 30)) (Some 12) = Some 0)"
proof -
  have none: "\<not> has_record ty (example_collection i st) example_db g" for ty i st g
    by (simp add: has_record_def example_db_def)
  have own: "is_owner (example_collection 11 PRIVATE) 10"
    by (simp add: is_owner_def example_fields)
  have rem: "\<exists>remaining. remove_records ty s d g = Inr remaining" for ty s d g
    by (simp add: remove_records_def)
  show ?thesis
    using subscribe_unsubscribe_counter_round_trip
      [where is_subscribed = "has_record ''subscribe''"
         and super_unsubscribe = "remove_records ''subscribe''"
         and is_server_active = "has_record ''server_active''"
         and super_unset_server_active = "remove_records ''server_active''"
         and self = "example_collection 11 PRIVATE" and db = example_db
         and user_id = 10 and guild_id = 30 and new_id = 4 and ?t1.0 = 0 and ?t2.0 = 1]
      subscribe_unsubscribe_counter_round_trip
      [where is_subscribed = "has_record ''subscribe''"
         and super_unsubscribe = "remove_records ''subscribe''"
         and is_server_active = "has_record ''server_active''"
         and super_unset_server_active = "remove_records ''server_active''"
         and self = "example_collection 12 UNLISTED" and db = example_db
         and user_id = 10 and guild_id = 30 and new_id = 4 and ?t1.0 = 0 and ?t2.0 = 1]
    by (simp add: none own rem example_members_resolve example_fields example_counters)
qed

text \<open>
  Claim C10. \<open>unsubscribe\<close> and \<open>unset_server_active\<close> test nothing themselves: whenever
  the delegated removal of the record returns, whether or not the subscriber had a
  record, the call succeeds, the remaining records are what the removal returned, the
  counter of the collection's document is one lower than it was and the event is logged.
  A counter at zero becomes negative.
\<close>

theorem unsubscribe_decrements_unconditionally:
  "(super_unsubscribe self db user_id = Inr remaining \<longrightarrow>
      fst (unsubscribe super_unsubscribe utcnow db self user_id) = Inr ()
      \<and> num_subscribers (snd (unsubscribe super_unsubscribe utcnow db self user_id)) (c_id self)
          = map_option (\<lambda>n. n - 1) (num_subscribers db (c_id self))
      \<and> workshop_subscriptions (snd (unsubscribe super_unsubscribe utcnow db self user_id))
          = remaining
      \<and> analytics_alias_events (snd (unsubscribe super_unsubscribe utcnow db self user_id))
          = analytics_alias_events db @
            [\<lparr>ev_type = ''unsubscribe'', ev_object_id = c_id self, ev_timestamp = utcnow\<rparr>])
   \<and> (super_unset_server_active self db guild_id = Inr remaining' \<longrightarrow>
      fst (unset_server_active super_unset_server_active utcnow db self guild_id) = Inr ()
      \<and> num_guild_subscribers
            (snd (unset_server_active super_unset_server_active utcnow db self guild_id))
            (c_id self)
          = map_option (\<lambda>n. n - 1) (num_guild_subscribers db (c_id self))
      \<and> workshop_subscriptions
            (snd (unset_server_active super_unset_server_active utcnow db self guild_id))
          = remaining'
      \<and> analytics_alias_events
            (snd (unset_server_active super_unset_server_active utcnow db self guild_id))
          = analytics_alias_events db @
            [\<lparr>ev_type = ''server_unsubscribe'', ev_object_id = c_id self,
              ev_timestamp = utcnow\<rparr>])"
proof (intro conjI impI)
  assume r: "super_unsubscribe self db user_id = Inr remaining"
  show "fst (unsubscribe super_unsubscribe utcnow db self user_id) = Inr ()"
    by (simp add: unsubscribe_def r)
  show "num_subscribers (snd (unsubscribe super_unsubscribe utcnow db self user_id)) (c_id self)
          = map_option (\<lambda>n. n - 1) (num_subscribers db (c_id self))"
    by (simp add: unsubscribe_def r num_subscribers_other_writes num_subscribers_inc)
  show "workshop_subscriptions (snd (unsubscribe super_unsubscribe utcnow db self user_id))
          = remaining"
    by (simp add: unsubscribe_def r insert_one_event_def inc_num_subscribers_def)
  show "analytics_alias_events (snd (unsubscribe super_unsubscribe utcnow db self user_id))
          = analytics_alias_events db @
            [\<lparr>ev_type = ''unsubscribe'', ev_object_id = c_id self, ev_timestamp = utcnow\<rparr>]"
    by (simp add: unsubscribe_def r insert_one_event_def inc_num_subscribers_def)
next
  assume r: "super_unset_server_active self db guild_id = Inr remaining'"
  show "fst (unset_server_active super_unset_server_active utcnow db self guild_id) = Inr ()"
    by (simp add: unset_server_active_def r)
  show "num_guild_subscribers
            (snd (unset_server_active super_unset_server_active utcnow db self guild_id))
            (c_id self)
          = map_option (\<lambda>n. n - 1) (num_guild_subscribers db (c_id self))"
    by (simp add: unset_server_active_def r num_subscribers_other_writes
          num_guild_subscribers_inc)
  show "workshop_subscriptions
            (snd (unset_server_active super_unset_server_active utcnow db self guild_id))
          = remaining'"
    by (simp add: unset_server_active_def r insert_one_event_def
          inc_num_guild_subscribers_def)
  show "analytics_alias_events
            (snd (unset_server_active super_unset_server_active utcnow db self guild_id))
          = analytics_alias_events db @
            [\<lparr>ev_type = ''server_unsubscribe'', ev_object_id = c_id self,
              ev_timestamp = utcnow\<rparr>]"
    by (simp add: unset_server_active_def r insert_one_event_def
          inc_num_guild_subscribers_def)
qed

theorem unsubscribe_decrements_unconditionally_witness:
  "\<not> has_record ''subscribe'' (example_collection 12 UNLISTED) example_db 20
   \<and> remove_records ''subscribe'' (example_collection 12 UNLISTED) example_db 20 = Inr []
   \<and> num_subscribers example_db (Some 12) = Some 0
   \<and> fst (unsubscribe (remove_records ''subscribe'') 0 example_db
            (example_collection 12 UNLISTED) 20) = Inr ()
   \<and> num_subscribers
       (snd (unsubscribe (remove_records ''subscribe'') 0 example_db
               (example_collection 12 UNLISTED) 20)) (Some 12) = Some (- 1)
   \<and> \<not> has_record ''server_active'' (example_collection 12 UNLISTED) example_db 30
   \<and> remove_records ''server_active'' (example_collection 12 UNLISTED) example_db 30 = Inr []
   \<and> num_guild_subscribers example_db (Some 12) = Some 0
   \<and> fst (unset_server_active (remove_records ''server_active'') 0 example_db
            (example_collection 12 UNLISTED) 30) = Inr ()
   \<and> num_guild_subscribers
       (snd (unset_server_active (remove_records ''server_active'') 0 example_db
               (example_collection 12 UNLISTED) 30)) (Some 12) = Some (- 1)"
proof -
  have none: "\<not> has_record ty (example_collection i st) example_db g" for ty i st g
    by (simp add: has_record_def example_db_def)
  have rem: "remove_records ty (example_collection i st) example_db g = Inr []" for ty i st g
    by (simp add: remove_records_def example_db_def)
  show ?thesis
    using unsubscribe_decrements_unconditionally
      [where super_unsubscribe = "remove_records ''subscribe''"
         and super_unset_server_active = "remove_records ''server_active''"
         and self = "example_collection 12 UNLISTED" and db = example_db
         and user_id = 20 and guild_id = 30 and remaining = "[]" and remaining' = "[]"
         and utcnow = 0]
    by (simp add: none rem example_fields example_counters)
qed

subsection \<open>Lazy relationships\<close>

text \<open>
  Claim C8, as the code has it. A freshly constructed collection raises the "not loaded"
  error from \<open>aliases\<close> and \<open>snippets\<close>, and a freshly constructed alias from
  \<open>subcommands\<close>. The accessors \<open>collection\<close> and \<open>parent\<close> raise it exactly when the
  constructor was given no collection (no parent), which is its default; an object
  constructed with one returns it without any load call. After \<open>load_aliases\<close>
  (\<open>load_snippets\<close>) has succeeded the accessor returns the loaded list, and what was
  cached before has no influence on the outcome: a second load replaces the list.
\<close>

theorem lazy_accessors:
  "aliases (WorkshopCollection_init i name description img owner alias_ids snippet_ids
              publish_state n g last_edited created_at tags)
     = Inl (AttributeError ''Aliases are not loaded yet - run load_aliases() first'')
   \<and> snippets (WorkshopCollection_init i name description img owner alias_ids snippet_ids
              publish_state n g last_edited created_at tags)
     = Inl (AttributeError ''Snippets are not loaded yet - run load_snippets() first'')
   \<and> collection (WorkshopCollectableObject_init oi oname code versions docs ents coll_id coll)
     = (case coll of
          None \<Rightarrow> Inl (AttributeError ''Collection is not loaded - run load_collection() first'')
        | Some c \<Rightarrow> Inr c)
   \<and> collection (a_base (WorkshopAlias_init oi oname code versions docs ents coll_id
                           sub_ids par_id coll par))
     = (case coll of
          None \<Rightarrow> Inl (AttributeError ''Collection is not loaded - run load_collection() first'')
        | Some c \<Rightarrow> Inr c)
   \<and> parent (WorkshopAlias_init oi oname code versions docs ents coll_id sub_ids par_id
               coll par)
     = (case par of
          None \<Rightarrow> Inl (AttributeError ''Parent is not loaded yet - run load_parent() first'')
        | Some p \<Rightarrow> Inr p)
   \<and> subcommands (WorkshopAlias_init oi oname code versions docs ents coll_id sub_ids par_id
                    coll par)
     = Inl (AttributeError ''Subcommands are not loaded yet - run load_subcommands() first'')
   \<and> (fst (load_aliases db self) = Inr loaded \<longrightarrow>
        aliases (snd (load_aliases db self)) = Inr loaded)
   \<and> (fst (load_snippets db self) = Inr loaded' \<longrightarrow>
        snippets (snd (load_snippets db self)) = Inr loaded')
   \<and> fst (load_aliases db (self\<lparr>c_aliases := old\<rparr>)) = fst (load_aliases db self)
   \<and> aliases (snd (load_aliases db (self\<lparr>c_aliases := old\<rparr>)))
       = aliases (snd (load_aliases db self))
   \<and> fst (load_snippets db (self\<lparr>c_snippets := old'\<rparr>)) = fst (load_snippets db self)
   \<and> snippets (snd (load_snippets db (self\<lparr>c_snippets := old'\<rparr>)))
       = snippets (snd (load_snippets db self))"
proof -
  have la: "fst (load_aliases db self) = Inr loaded \<longrightarrow>
        aliases (snd (load_aliases db self)) = Inr loaded"
    by (auto simp: load_aliases_def aliases_def split: prod.splits option.splits)
  have ls: "fst (load_snippets db self) = Inr loaded' \<longrightarrow>
        snippets (snd (load_snippets db self)) = Inr loaded'"
    by (auto simp: load_snippets_def snippets_def split: prod.splits option.splits)
  have ra: "fst (load_aliases db (self\<lparr>c_aliases := old\<rparr>)) = fst (load_aliases db self)
     \<and> aliases (snd (load_aliases db (self\<lparr>c_aliases := old\<rparr>)))
         = aliases (snd (load_aliases db self))"
    by (simp add: load_aliases_def aliases_def split: prod.splits option.splits)
  have rs: "fst (load_snippets db (self\<lparr>c_snippets := old'\<rparr>)) = fst (load_snippets db self)
     \<and> snippets (snd (load_snippets db (self\<lparr>c_snippets := old'\<rparr>)))
         = snippets (snd (load_snippets db self))"
    by (simp add: load_snippets_def snippets_def split: prod.splits option.splits)
  have init: "aliases (WorkshopCollection_init i name description img owner alias_ids
                snippet_ids publish_state n g last_edited created_at tags)
     = Inl (AttributeError ''Aliases are not loaded yet - run load_aliases() first'')"
    "snippets (WorkshopCollection_init i name description img owner alias_ids snippet_ids
              publish_state n g last_edited created_at tags)
     = Inl (AttributeError ''Snippets are not loaded yet - run load_snippets() first'')"
    by (simp_all add: aliases_def snippets_def WorkshopCollection_init_def)
  have obj: "collection (WorkshopCollectableObject_init oi oname code versions docs ents
               coll_id coll)
     = (case coll of
          None \<Rightarrow> Inl (AttributeError ''Collection is not loaded - run load_collection() first'')
        | Some c \<Rightarrow> Inr c)"
    "collection (a_base (WorkshopAlias_init oi oname code versions docs ents coll_id
                           sub_ids par_id coll par))
     = (case coll of
          None \<Rightarrow> Inl (AttributeError ''Collection is not loaded - run load_collection() first'')
        | Some c \<Rightarrow> Inr c)"
    "parent (WorkshopAlias_init oi oname code versions docs ents coll_id sub_ids par_id
               coll par)
     = (case par of
          None \<Rightarrow> Inl (AttributeError ''Parent is not loaded yet - run load_parent() first'')
        | Some p \<Rightarrow> Inr p)"
    "subcommands (WorkshopAlias_init oi oname code versions docs ents coll_id sub_ids par_id
                    coll par)
     = Inl (AttributeError ''Subcommands are not loaded yet - run load_subcommands() first'')"
    by (simp_all add: collection_def parent_def subcommands_def WorkshopAlias_init_def
          WorkshopCollectableObject_init_def)
  from init obj la ls ra rs show ?thesis by (intro conjI) blast+
qed

lemma example_load_aliases:
  "fst (load_aliases example_db (example_collection 11 PRIVATE))
     = Inr [WorkshopAlias_init 5 ''roll'' ''echo'' [] ''help'' [] 11 [] None
              (Some (CollectionRef (Some 11))) None]"
  by (simp add: load_aliases_def example_fields example_collection_def
        WorkshopCollection_init_def WorkshopAlias_from_id_def WorkshopAlias_from_dict_def
        find_one_alias_def example_db_def)

lemma example_load_snippets:
  "fst (load_snippets example_db (example_collection 11 PRIVATE))
     = Inr [WorkshopCollectableObject_init 6 ''adv'' ''adv'' [] ''help'' [] 11
              (Some (CollectionRef (Some 11)))]"
  by (simp add: load_snippets_def example_fields example_collection_def
        WorkshopCollection_init_def WorkshopSnippet_from_id_def
        find_one_snippet_def example_db_def)

theorem lazy_accessors_witness:
  "fst (load_aliases example_db (example_collection 11 PRIVATE))
     = Inr [WorkshopAlias_init 5 ''roll'' ''echo'' [] ''help'' [] 11 [] None
              (Some (CollectionRef (Some 11))) None]
   \<and> aliases (snd (load_aliases example_db (example_collection 11 PRIVATE)))
     = Inr [WorkshopAlias_init 5 ''roll'' ''echo'' [] ''help'' [] 11 [] None
              (Some (CollectionRef (Some 11))) None]
   \<and> fst (load_snippets example_db (example_collection 11 PRIVATE))
     = Inr [WorkshopCollectableObject_init 6 ''adv'' ''adv'' [] ''help'' [] 11
              (Some (CollectionRef (Some 11)))]
   \<and> snippets (snd (load_snippets example_db (example_collection 11 PRIVATE)))
     = Inr [WorkshopCollectableObject_init 6 ''adv'' ''adv'' [] ''help'' [] 11
              (Some (CollectionRef (Some 11)))]"
  using lazy_accessors
    [where db = example_db and self = "example_collection 11 PRIVATE"
       and loaded = "[WorkshopAlias_init 5 ''roll'' ''echo'' [] ''help'' [] 11 [] None
              (Some (CollectionRef (Some 11))) None]"
       and loaded' = "[WorkshopCollectableObject_init 6 ''adv'' ''adv'' [] ''help'' [] 11
              (Some (CollectionRef (Some 11)))]"]
  by (simp add: example_load_aliases example_load_snippets)

text \<open>
  The claim as it was stated has every freshly constructed object fail on \<open>collection\<close>
  before \<open>load_collection\<close>. The aliases that \<open>load_aliases\<close> constructs are given the
  collection, and their accessor returns it with no load call.
\<close>

theorem collection_accessor_counterexample:
  "map_sum id (map (\<lambda>a. collection (a_base a)))
     (fst (load_aliases example_db (example_collection 11 PRIVATE)))
   = Inr [Inr (CollectionRef (Some 11))]"
  by (simp add: example_load_aliases collection_def WorkshopAlias_init_def
        WorkshopCollectableObject_init_def)

subsection \<open>The parent of a root alias\<close>

lemma find_one_alias_fresh:
  assumes "generated \<notin> r_id ` set (workshop_aliases db)"
  shows "find_one_alias db generated = None"
  using assms by (auto simp: find_one_alias_def find_None_iff)

text \<open>
  Claim C9. For every root alias (stored parent identifier \<open>None\<close>), \<open>load_parent\<close>
  returns no parent and no "no parent" value: the missing identifier is coerced into a
  newly generated \<open>ObjectId\<close>, which no stored alias has, the lookup misses and
  \<open>CollectableNotFound\<close> is raised, leaving the alias as it was. The \<open>parent\<close> accessor
  of an alias whose parent is not set raises one and the same "not loaded" error,
  after the failed load of a root alias as for any alias whose parent was never loaded.
\<close>

theorem load_parent_root_alias:
  assumes "a_parent_id self = None"
    and "generated \<notin> r_id ` set (workshop_aliases db)"
  shows "load_parent generated db self = (Inl CollectableNotFound, self)
     \<and> (a_parent self = None \<longrightarrow>
          parent (snd (load_parent generated db self))
            = Inl (AttributeError ''Parent is not loaded yet - run load_parent() first''))
     \<and> (a_parent other = None \<longrightarrow>
          parent other
            = Inl (AttributeError ''Parent is not loaded yet - run load_parent() first''))"
  using assms
  by (simp add: load_parent_def WorkshopAlias_from_id_def find_one_alias_fresh parent_def)

theorem load_parent_root_alias_witness:
  "a_parent_id (WorkshopAlias_init 5 ''roll'' ''echo'' [] ''help'' [] 11 [] None None None)
     = None
   \<and> 99 \<notin> r_id ` set (workshop_aliases example_db)
   \<and> load_parent 99 example_db
        (WorkshopAlias_init 5 ''roll'' ''echo'' [] ''help'' [] 11 [] None None None)
     = (Inl CollectableNotFound,
        WorkshopAlias_init 5 ''roll'' ''echo'' [] ''help'' [] 11 [] None None None)
   \<and> parent (snd (load_parent 99 example_db
        (WorkshopAlias_init 5 ''roll'' ''echo'' [] ''help'' [] 11 [] None None None)))
     = Inl (AttributeError ''Parent is not loaded yet - run load_parent() first'')
   \<and> parent (WorkshopAlias_init 7 ''sub'' ''echo'' [] ''help'' [] 11 [] (Some 5) None None)
     = Inl (AttributeError ''Parent is not loaded yet - run load_parent() first'')"
proof -
  have h1: "a_parent_id
      (WorkshopAlias_init 5 ''roll'' ''echo'' [] ''help'' [] 11 [] None None None) = None"
    by (simp add: WorkshopAlias_init_def)
  have h2: "99 \<notin> r_id ` set (workshop_aliases example_db)"
    by (simp add: example_db_def)
  have p: "a_parent (WorkshopAlias_init i n c v d e ci si pi co None) = None"
    for i n c v d e ci si pi co
    by (simp add: WorkshopAlias_init_def)
  from load_parent_root_alias [OF h1 h2,
      of "WorkshopAlias_init 7 ''sub'' ''echo'' [] ''help'' [] 11 [] (Some 5) None None"]
  show ?thesis using h1 h2 by (simp add: p parent_def)
qed

subsection \<open>What the binding updates store\<close>

lemma update_one_hit:
  assumes "P x" "\<forall>y \<in> set pre. \<not> P y"
  shows "update_one P f (pre @ x # post) = pre @ f x # post"
  using assms by (induction pre) simp_all

lemma update_alias_bindings_stores:
  assumes "bindings_sanity_check set_order db self (c_alias_ids self)
             (s_alias_bindings subscription_doc) WorkshopAlias_cls = Inr the_bindings"
  shows "update_alias_bindings set_order db self subscription_doc =
           (Inr (),
            db\<lparr>workshop_subscriptions :=
                 update_one (\<lambda>s. s_id s = s_id subscription_doc)
                   (\<lambda>s. s\<lparr>s_alias_bindings := the_bindings\<rparr>) (workshop_subscriptions db)\<rparr>)"
  using assms by (simp add: update_alias_bindings_def)

lemma update_snippet_bindings_stores:
  assumes "bindings_sanity_check set_order db self (c_snippet_ids self)
             (s_snippet_bindings subscription_doc) WorkshopSnippet_cls = Inr the_bindings"
  shows "update_snippet_bindings set_order db self subscription_doc =
           (Inr (),
            db\<lparr>workshop_subscriptions :=
                 update_one (\<lambda>s. s_id s = s_id subscription_doc)
                   (\<lambda>s. s\<lparr>s_snippet_bindings := the_bindings\<rparr>) (workshop_subscriptions db)\<rparr>)"
  using assms by (simp add: update_snippet_bindings_def)

end

